theory Spec2Isabelle
  imports Complex_Main "HOL-Library.Option_ord" "HOL-Library.Sublist"
begin

section \<open>Data model (schemas.py)\<close>

text \<open>
  The pydantic models of \<^verbatim>\<open>schemas.py\<close> as records. \<^verbatim>\<open>Optional[T]\<close> is \<open>T option\<close>,
  Python's \<^verbatim>\<open>float\<close> is modelled by \<open>real\<close> (only its order is used), \<^verbatim>\<open>int\<close> by \<open>int\<close>,
  \<^verbatim>\<open>str\<close> by \<open>string\<close>. Several models share field names; a field is then written
  with its record's name, as in \<open>Product.title\<close>. The field \<^verbatim>\<open>size\<close> of a variant is
  \<open>size_v\<close>, the field \<^verbatim>\<open>sort\<close> of a filter request is \<open>sort_f\<close> and the field
  \<^verbatim>\<open>notes\<close> of an order is \<open>notes_o\<close>, the plain names being taken by the library or the
  proof language.
\<close>

record ProductVariant =
  size_v :: string
  color :: string
  sku :: "string option"
  stock :: int

record ProductImage =
  url :: string
  alt :: "string option"

record Product =
  title :: string
  description :: "string option"
  price :: real
  compare_at_price :: "real option"
  category :: string
  subcategory :: "string option"
  brand :: "string option"
  rating :: "real option"
  rating_count :: "int option"
  tags :: "string list option"
  variants :: "ProductVariant list"
  images :: "ProductImage list"
  is_active :: bool

record CartItem =
  product_id :: string
  title :: string
  price :: real
  quantity :: int
  variant :: "ProductVariant option"
  image :: "string option"

type_synonym datetime = nat

record Order =
  items :: "CartItem list"
  subtotal :: real
  discount :: real
  shipping :: real
  total :: real
  currency :: string
  customer_name :: string
  customer_email :: string
  customer_phone :: "string option"
  shipping_address :: string
  notes_o :: "string option"
  created_at :: "datetime option"

section \<open>Requests, responses and errors (main.py)\<close>

record FilterRequest =
  category :: "string option"
  subcategory :: "string option"
  price_min :: "real option"
  price_max :: "real option"
  colors :: "string list option"
  sizes :: "string list option"
  tags :: "string list option"
  sort_f :: "string option"
  search :: "string option"
  page :: int
  limit :: int

text \<open>
  What a handler can end with other than a response: the \<^verbatim>\<open>HTTPException\<close> it raises
  itself, with status code and detail, or an exception of the driver that no handler
  catches: \<open>OperationFailure\<close> (the server rejects a query), \<open>OverflowError\<close> (an integer
  that does not fit BSON's eight bytes), \<open>PyMongoError\<close> (any failure of a write).
\<close>

datatype error =
    HTTPException (status_code: nat) (detail: string)
  | OperationFailure
  | OverflowError
  | PyMongoError

text \<open>The status code that HTTP names Service Unavailable.\<close>

definition HTTP_503_SERVICE_UNAVAILABLE :: nat where
  "HTTP_503_SERVICE_UNAVAILABLE = 503"

section \<open>The document store\<close>

text \<open>
  An object identifier (\<^verbatim>\<open>bson.ObjectId\<close>) is a string of bytes, kept here as the lower-case
  hexadecimal digits that \<^verbatim>\<open>str\<close> prints, two for each byte.
\<close>

datatype oid = Oid string

fun str_oid :: "oid \<Rightarrow> string" where
  "str_oid (Oid h) = h"

definition to_lower :: "char \<Rightarrow> char" where
  "to_lower c =
     (case map_of (zip ''ABCDEFGHIJKLMNOPQRSTUVWXYZ'' ''abcdefghijklmnopqrstuvwxyz'') c of
        None \<Rightarrow> c
      | Some d \<Rightarrow> d)"

definition is_hex :: "char \<Rightarrow> bool" where
  "is_hex c = (c \<in> set ''0123456789abcdefABCDEF'')"

text \<open>
  \<^verbatim>\<open>bytes.fromhex\<close>: the bytes written by a string of pairs of hexadecimal digits. ASCII
  whitespace before a pair and at the end is skipped; anything else raises, a digit without
  its second digit too.
\<close>

definition is_space :: "char \<Rightarrow> bool" where
  "is_space c = (c \<in> set [CHR '' '', CHR 0x09, CHR 0x0A, CHR 0x0B, CHR 0x0C, CHR 0x0D])"

fun fromhex :: "string \<Rightarrow> string option" where
  "fromhex [] = Some []"
| "fromhex [c] = (if is_space c then Some [] else None)"
| "fromhex (c # d # s) =
     (if is_space c then fromhex (d # s)
      else if is_hex c \<and> is_hex d
      then map_option (\<lambda>h. to_lower c # to_lower d # h) (fromhex s)
      else None)"

text \<open>
  \<^verbatim>\<open>ObjectId(s)\<close> on a string: the string must have 24 characters and \<^verbatim>\<open>bytes.fromhex\<close>
  must read it; the identifier is the bytes read, twelve when the string is 24 digits and
  fewer when it holds whitespace. Any other string raises. (The length is in characters;
  a string with a character outside ASCII is refused at any length, there as here.)
\<close>

definition ObjectId :: "string \<Rightarrow> oid option" where
  "ObjectId s = (if length s = 24 then map_option Oid (fromhex s) else None)"

text \<open>
  The specification's words: an identifier is syntactically well formed when it is 24
  hexadecimal digits.
\<close>

definition well_formed_id :: "string \<Rightarrow> bool" where
  "well_formed_id s = (length s = 24 \<and> list_all is_hex s)"

text \<open>
  A stored document is its \<^verbatim>\<open>_id\<close> and the dumped model; a document handed to the client
  has the \<^verbatim>\<open>_id\<close> replaced by its string. A database is its collections by name, each a
  list of documents in natural (insertion) order.
\<close>

datatype doc_data = ProductData Product | OrderData Order

type_synonym document = "oid \<times> doc_data"
type_synonym json_document = "string \<times> doc_data"

record database =
  collections :: "string \<Rightarrow> document list"
  next_id :: nat

definition find_one :: "document list \<Rightarrow> oid \<Rightarrow> document option" where
  "find_one coll i = List.find (\<lambda>d. fst d = i) coll"

text \<open>
  The handle \<^verbatim>\<open>db\<close> and \<^verbatim>\<open>create_document\<close> live in \<^verbatim>\<open>database.py\<close>, which is not among the
  sources. The handle is the argument \<open>db\<close> of every handler, \<open>None\<close> when the database is not
  configured. The handlers that write take \<^verbatim>\<open>create_document\<close> as a parameter: given the
  database, a collection name and a record it returns the new identifier, or raises, and
  the database as it is afterwards.
\<close>

type_synonym create_document_fn =
  "database \<Rightarrow> string \<Rightarrow> doc_data \<Rightarrow> (error + string) \<times> database"

fun to_hex :: "nat \<Rightarrow> nat \<Rightarrow> string" where
  "to_hex 0 n = []"
| "to_hex (Suc k) n = to_hex k (n div 16) @ [''0123456789abcdef'' ! (n mod 16)]"

text \<open>
  Modelled from the spec: \<^verbatim>\<open>create_document\<close> of the missing \<^verbatim>\<open>database.py\<close>. "Accept one
  validated record, persist it, return its newly generated identifier": the record is
  appended to the named collection under a fresh identifier, which is returned as a
  string. A write can fail; \<open>rejects\<close> says for which records the server refuses the write,
  and a refused write raises and stores nothing.
\<close>

definition create_document :: "(doc_data \<Rightarrow> bool) \<Rightarrow> create_document_fn" where
  "create_document rejects d collection_name data =
     (if rejects data then (Inl PyMongoError, d)
      else
        let i = Oid (to_hex 24 (next_id d)) in
        (Inr (str_oid i),
         d\<lparr>collections := (collections d)(collection_name := collections d collection_name @ [(i, data)]),
           next_id := next_id d + 1\<rparr>))"

section \<open>Handlers that write: seed\_products and create\_order\<close>

record seed_response =
  inserted :: nat
  ids :: "string list"

text \<open>
  The loop of \<^verbatim>\<open>seed_products\<close>: one \<^verbatim>\<open>create_document\<close> per product, in order, the
  identifiers appended to \<^verbatim>\<open>inserted_ids\<close>. An exception leaves the loop at once; the
  database stays as the calls made so far left it.
\<close>

fun seed_loop ::
  "create_document_fn \<Rightarrow> database \<Rightarrow> Product list \<Rightarrow> string list \<Rightarrow> (error + string list) \<times> database"
where
  "seed_loop cd d [] inserted_ids = (Inr inserted_ids, d)"
| "seed_loop cd d (product # products) inserted_ids =
     (case cd d ''product'' (ProductData product) of
        (Inl e, d') \<Rightarrow> (Inl e, d')
      | (Inr inserted_id, d') \<Rightarrow> seed_loop cd d' products (inserted_ids @ [inserted_id]))"

definition seed_products ::
  "create_document_fn \<Rightarrow> database option \<Rightarrow> Product list \<Rightarrow> (error + seed_response) \<times> database option"
where
  "seed_products cd db products =
     (case db of
        None \<Rightarrow> (Inl (HTTPException 500 ''Database not configured''), None)
      | Some d \<Rightarrow>
          (case seed_loop cd d products [] of
             (Inl e, d') \<Rightarrow> (Inl e, Some d')
           | (Inr inserted_ids, d') \<Rightarrow>
               (Inr \<lparr>inserted = length inserted_ids, ids = inserted_ids\<rparr>, Some d')))"

definition create_order ::
  "create_document_fn \<Rightarrow> database option \<Rightarrow> Order \<Rightarrow> (error + string) \<times> database option"
where
  "create_order cd db order =
     (case db of
        None \<Rightarrow> (Inl (HTTPException 500 ''Database not configured''), None)
      | Some d \<Rightarrow>
          (case cd d ''order'' (OrderData order) of
             (Inl e, d') \<Rightarrow> (Inl e, Some d')
           | (Inr order_id, d') \<Rightarrow> (Inr order_id, Some d')))"

section \<open>get\_product\<close>

definition get_product :: "database option \<Rightarrow> string \<Rightarrow> error + json_document" where
  "get_product db pid =
     (case db of
        None \<Rightarrow> Inl (HTTPException 500 ''Database not configured'')
      | Some d \<Rightarrow>
          (case ObjectId pid of
             None \<Rightarrow> Inl (HTTPException 400 ''Invalid product id'')
           | Some obj_id \<Rightarrow>
               (case find_one (collections d ''product'') obj_id of
                  None \<Rightarrow> Inl (HTTPException 404 ''Not found'')
                | Some doc \<Rightarrow> Inr (str_oid (fst doc), snd doc))))"

section \<open>The query language of the document store\<close>

text \<open>
  The dictionary that \<^verbatim>\<open>search_products\<close> builds, as an association list in insertion
  order. A key maps to a condition on that field, or (the key \<^verbatim>\<open>$or\<close>) to a list of
  one-field alternatives. The conditions are the four the handler writes: equality with a
  value, \<^verbatim>\<open>{"$in": [...]}\<close>, \<^verbatim>\<open>{"$regex": p, "$options": o}\<close> and the \<^verbatim>\<open>price_filter\<close>
  dictionary of comparison operators.
\<close>

datatype bson = BNull | BBool bool | BStr string | BNum real

datatype cond =
    QEq bson
  | QIn "string list"
  | QRegex string string
  | QCmp "(string \<times> real) list"

datatype qvalue = QCond cond | QOr "(string \<times> cond) list"

type_synonym query = "(string \<times> qvalue) list"

text \<open>
  The regular-expression engine of the server is a parameter: it compiles a pattern with
  its options into a test on strings that says whether the pattern matches somewhere in
  the string, or fails to compile.
\<close>

type_synonym regex_engine = "string \<Rightarrow> string \<Rightarrow> (string \<Rightarrow> bool) option"

text \<open>
  The values a field path resolves to in a stored document, an array giving one value per
  element (a query condition holds of an array field when it holds of an element) and a
  dotted path descending through the array of variants. Only the paths that the handler's
  queries and sort specifications name are resolved; an order has none of them.
\<close>

definition product_field :: "string \<Rightarrow> Product \<Rightarrow> bson list" where
  "product_field path p =
     (if path = ''is_active'' then [BBool (is_active p)]
      else if path = ''category'' then [BStr (Product.category p)]
      else if path = ''subcategory'' then
        (case Product.subcategory p of None \<Rightarrow> [BNull] | Some s \<Rightarrow> [BStr s])
      else if path = ''variants.color'' then map (\<lambda>v. BStr (color v)) (variants p)
      else if path = ''variants.size'' then map (\<lambda>v. BStr (size_v v)) (variants p)
      else if path = ''tags'' then
        (case Product.tags p of None \<Rightarrow> [BNull] | Some ts \<Rightarrow> map BStr ts)
      else if path = ''title'' then [BStr (Product.title p)]
      else if path = ''description'' then
        (case description p of None \<Rightarrow> [BNull] | Some s \<Rightarrow> [BStr s])
      else if path = ''price'' then [BNum (Product.price p)]
      else if path = ''rating'' then
        (case rating p of None \<Rightarrow> [BNull] | Some x \<Rightarrow> [BNum x])
      else [])"

fun field_values :: "string \<Rightarrow> doc_data \<Rightarrow> bson list" where
  "field_values path (ProductData p) = product_field path p"
| "field_values path (OrderData ord) = []"

definition cmp_op :: "string \<Rightarrow> real \<Rightarrow> real \<Rightarrow> bool" where
  "cmp_op opr x b =
     (if opr = ''$gte'' then b \<le> x else if opr = ''$lte'' then x \<le> b else False)"

fun sat :: "regex_engine \<Rightarrow> cond \<Rightarrow> bson \<Rightarrow> bool" where
  "sat rx (QEq b) v = (v = b)"
| "sat rx (QIn xs) v = (case v of BStr s \<Rightarrow> s \<in> set xs | _ \<Rightarrow> False)"
| "sat rx (QRegex pat opts) v =
     (case v of
        BStr s \<Rightarrow> (case rx pat opts of None \<Rightarrow> False | Some m \<Rightarrow> m s)
      | _ \<Rightarrow> False)"
| "sat rx (QCmp ops) v =
     (case v of BNum x \<Rightarrow> list_all (\<lambda>(opr, b). cmp_op opr x b) ops | _ \<Rightarrow> False)"

definition field_sat :: "regex_engine \<Rightarrow> doc_data \<Rightarrow> string \<Rightarrow> cond \<Rightarrow> bool" where
  "field_sat rx d path c = list_ex (sat rx c) (field_values path d)"

fun clause_matches :: "regex_engine \<Rightarrow> doc_data \<Rightarrow> string \<times> qvalue \<Rightarrow> bool" where
  "clause_matches rx d (k, QCond c) = field_sat rx d k c"
| "clause_matches rx d (k, QOr alts) = list_ex (\<lambda>(f, c). field_sat rx d f c) alts"

definition doc_matches :: "regex_engine \<Rightarrow> query \<Rightarrow> document \<Rightarrow> bool" where
  "doc_matches rx q doc = list_all (clause_matches rx (snd doc)) q"

text \<open>The server rejects a query holding a pattern that does not compile.\<close>

fun cond_ok :: "regex_engine \<Rightarrow> cond \<Rightarrow> bool" where
  "cond_ok rx (QRegex pat opts) = (case rx pat opts of None \<Rightarrow> False | Some m \<Rightarrow> True)"
| "cond_ok rx c = True"

fun clause_ok :: "regex_engine \<Rightarrow> string \<times> qvalue \<Rightarrow> bool" where
  "clause_ok rx (k, QCond c) = cond_ok rx c"
| "clause_ok rx (k, QOr alts) = list_all (\<lambda>(f, c). cond_ok rx c) alts"

definition query_ok :: "regex_engine \<Rightarrow> query \<Rightarrow> bool" where
  "query_ok rx q = list_all (clause_ok rx) q"

subsection \<open>Cursors: find, sort, skip, limit\<close>

definition find_docs :: "regex_engine \<Rightarrow> document list \<Rightarrow> query \<Rightarrow> document list" where
  "find_docs rx coll q = filter (doc_matches rx q) coll"

definition count_documents :: "regex_engine \<Rightarrow> document list \<Rightarrow> query \<Rightarrow> nat" where
  "count_documents rx coll q = length (filter (doc_matches rx q) coll)"

text \<open>
  The key a document is ordered by under a sort on a numeric field; a null or missing
  value comes before every number (\<open>None\<close> is least in the order on \<open>real option\<close>). The
  handler sorts on \<^verbatim>\<open>price\<close> and \<^verbatim>\<open>rating\<close> only.
\<close>

definition sort_value :: "string \<Rightarrow> doc_data \<Rightarrow> real option" where
  "sort_value field data =
     (case field_values field data of [BNum x] \<Rightarrow> Some x | _ \<Rightarrow> None)"

definition sort_desc_key :: "('a \<Rightarrow> 'k::linorder) \<Rightarrow> 'a list \<Rightarrow> 'a list" where
  "sort_desc_key k xs = rev (sort_key k (rev xs))"

text \<open>
  \<^verbatim>\<open>cursor.sort([(field, direction), ...])\<close>: ascending for direction 1, descending for -1,
  earlier keys more significant. Ties keep their natural order (the server promises no
  order among ties).
\<close>

fun sort_cursor :: "(string \<times> int) list \<Rightarrow> document list \<Rightarrow> document list" where
  "sort_cursor [] docs = docs"
| "sort_cursor ((field, direction) # spec) docs =
     (if direction < 0
      then sort_desc_key (\<lambda>doc. sort_value field (snd doc)) (sort_cursor spec docs)
      else sort_key (\<lambda>doc. sort_value field (snd doc)) (sort_cursor spec docs))"

definition skip_cursor :: "int \<Rightarrow> 'a list \<Rightarrow> 'a list" where
  "skip_cursor n docs = drop (nat n) docs"

text \<open>
  \<^verbatim>\<open>cursor.limit(n)\<close>: a limit of 0 is no limit, and a negative limit is sent to the server
  as its absolute value.
\<close>

definition limit_cursor :: "int \<Rightarrow> 'a list \<Rightarrow> 'a list" where
  "limit_cursor n docs = (if n = 0 then docs else take (nat \<bar>n\<bar>) docs)"

text \<open>An integer of a command is encoded in at most eight bytes.\<close>

definition fits_int64 :: "int \<Rightarrow> bool" where
  "fits_int64 n = (- (2 ^ 63) \<le> n \<and> n < 2 ^ 63)"

subsection \<open>The aggregation stages of the facet pipelines\<close>

fun variants_of :: "doc_data \<Rightarrow> ProductVariant list" where
  "variants_of (ProductData p) = variants p"
| "variants_of (OrderData ord) = []"

text \<open>
  \<^verbatim>\<open>{"$unwind": "$variants"}\<close>: one output per element of the array, none for a document
  without variants.
\<close>

definition unwind_variants :: "document list \<Rightarrow> (document \<times> ProductVariant) list" where
  "unwind_variants docs = concat (map (\<lambda>doc. map (\<lambda>v. (doc, v)) (variants_of (snd doc))) docs)"

text \<open>
  \<^verbatim>\<open>{"$group": {"_id": key, "count": {"$sum": 1}}}\<close>: one group per distinct key with the
  number of inputs carrying it, here in order of first occurrence.
\<close>

fun bump :: "'k \<Rightarrow> ('k \<times> nat) list \<Rightarrow> ('k \<times> nat) list" where
  "bump k [] = [(k, 1)]"
| "bump k ((k', n) # groups) = (if k = k' then (k', n + 1) # groups else (k', n) # bump k groups)"

definition group_count :: "'k list \<Rightarrow> ('k \<times> nat) list" where
  "group_count ks = fold bump ks []"

text \<open>\<^verbatim>\<open>{"$sort": {"count": -1}}\<close>\<close>

definition sort_count_desc :: "('k \<times> nat) list \<Rightarrow> ('k \<times> nat) list" where
  "sort_count_desc groups = sort_desc_key snd groups"

section \<open>search\_products\<close>

text \<open>\<^verbatim>\<open>if x:\<close> on an optional string or list: present and not empty.\<close>

definition when_truthy :: "'a list option \<Rightarrow> ('a list \<Rightarrow> 'b list) \<Rightarrow> 'b list" where
  "when_truthy x f = (case x of None \<Rightarrow> [] | Some v \<Rightarrow> if v = [] then [] else f v)"

definition price_filter :: "FilterRequest \<Rightarrow> (string \<times> real) list" where
  "price_filter filters =
     (case price_min filters of None \<Rightarrow> [] | Some a \<Rightarrow> [(''$gte'', a)]) @
     (case price_max filters of None \<Rightarrow> [] | Some b \<Rightarrow> [(''$lte'', b)])"

definition build_query :: "FilterRequest \<Rightarrow> query" where
  "build_query filters =
     [(''is_active'', QCond (QEq (BBool True)))] @
     when_truthy (FilterRequest.category filters) (\<lambda>c. [(''category'', QCond (QEq (BStr c)))]) @
     when_truthy (FilterRequest.subcategory filters) (\<lambda>c. [(''subcategory'', QCond (QEq (BStr c)))]) @
     when_truthy (colors filters) (\<lambda>cs. [(''variants.color'', QCond (QIn cs))]) @
     when_truthy (sizes filters) (\<lambda>ss. [(''variants.size'', QCond (QIn ss))]) @
     when_truthy (FilterRequest.tags filters) (\<lambda>ts. [(''tags'', QCond (QIn ts))]) @
     when_truthy (search filters)
       (\<lambda>s. [(''$or'', QOr [(''title'', QRegex s ''i''), (''description'', QRegex s ''i'')])]) @
     (if price_filter filters \<noteq> [] then [(''price'', QCond (QCmp (price_filter filters)))] else [])"

definition sort_spec :: "FilterRequest \<Rightarrow> (string \<times> int) list option" where
  "sort_spec filters =
     (if sort_f filters = Some ''price_asc'' then Some [(''price'', 1)]
      else if sort_f filters = Some ''price_desc'' then Some [(''price'', - 1)]
      else if sort_f filters = Some ''rating'' then Some [(''rating'', - 1)]
      else None)"

text \<open>
  A facet entry \<^verbatim>\<open>{"value": v, "count": n}\<close> is the pair \<open>(v, n)\<close>. The comprehension keeps
  a group when \<^verbatim>\<open>c.get("_id")\<close> is truthy: the key is there and is not the empty string.
\<close>

type_synonym facet = "string \<times> nat"

definition facet_entries :: "(string option \<times> nat) list \<Rightarrow> facet list" where
  "facet_entries groups =
     List.map_filter
       (\<lambda>(k, n). case k of None \<Rightarrow> None | Some v \<Rightarrow> if v = [] then None else Some (v, n))
       groups"

definition color_counts :: "regex_engine \<Rightarrow> document list \<Rightarrow> query \<Rightarrow> (string option \<times> nat) list" where
  "color_counts rx collection q =
     sort_count_desc
       (group_count (map (\<lambda>(doc, v). Some (color v))
          (unwind_variants (filter (doc_matches rx q) collection))))"

definition size_counts :: "regex_engine \<Rightarrow> document list \<Rightarrow> query \<Rightarrow> (string option \<times> nat) list" where
  "size_counts rx collection q =
     sort_count_desc
       (group_count (map (\<lambda>(doc, v). Some (size_v v))
          (unwind_variants (filter (doc_matches rx q) collection))))"

record facets =
  colors :: "facet list"
  sizes :: "facet list"

record search_response =
  total :: nat
  page :: int
  limit :: int
  items :: "json_document list"
  facets :: facets

definition skip_of :: "FilterRequest \<Rightarrow> int" where
  "skip_of filters = max 0 ((FilterRequest.page filters - 1) * FilterRequest.limit filters)"

text \<open>The cursor before \<^verbatim>\<open>skip\<close> and \<^verbatim>\<open>limit\<close>: the matching documents, sorted if asked.\<close>

definition sorted_cursor :: "regex_engine \<Rightarrow> document list \<Rightarrow> FilterRequest \<Rightarrow> document list" where
  "sorted_cursor rx collection filters =
     (let cursor = find_docs rx collection (build_query filters) in
      case sort_spec filters of
        None \<Rightarrow> cursor
      | Some spec \<Rightarrow> if spec = [] then cursor else sort_cursor spec cursor)"

definition search_products ::
  "regex_engine \<Rightarrow> database option \<Rightarrow> FilterRequest \<Rightarrow> error + search_response"
where
  "search_products rx db filters =
     (case db of
        None \<Rightarrow> Inl (HTTPException 500 ''Database not configured'')
      | Some d \<Rightarrow>
          let q = build_query filters;
              collection = collections d ''product'';
              skip = skip_of filters
          in
          if \<not> query_ok rx q then Inl OperationFailure
          else if \<not> (fits_int64 skip \<and> fits_int64 \<bar>FilterRequest.limit filters\<bar>)
          then Inl OverflowError
          else
            Inr \<lparr>total = count_documents rx collection q,
                 page = FilterRequest.page filters,
                 limit = FilterRequest.limit filters,
                 items =
                   map (\<lambda>item. (str_oid (fst item), snd item))
                     (limit_cursor (FilterRequest.limit filters)
                        (skip_cursor skip (sorted_cursor rx collection filters))),
                 facets =
                   \<lparr>colors = facet_entries (color_counts rx collection q),
                    sizes = facet_entries (size_counts rx collection q)\<rparr>\<rparr>)"

section \<open>A regular-expression engine on patterns of literals and dots\<close>



datatype atom = Lit char | AnyChar


fun atom_matches :: "atom \<Rightarrow> char \<Rightarrow> bool" where
  "atom_matches (Lit c) x = (to_lower c = to_lower x)"
| "atom_matches AnyChar x = (x \<noteq> CHR 0x0A)"

fun match_here :: "atom list \<Rightarrow> string \<Rightarrow> bool" where
  "match_here [] s = True"
| "match_here (a # as) [] = False"
| "match_here (a # as) (x # s) = (atom_matches a x \<and> match_here as s)"




definition no_engine :: regex_engine where
  "no_engine pat opts = None"


section \<open>Successful runs of inserts\<close>

text \<open>
  \<open>inserted_all cd d ps is d'\<close>: starting from \<open>d\<close>, \<^verbatim>\<open>create_document\<close> succeeds on each
  product of \<open>ps\<close> in turn, returns the identifiers \<open>is\<close> in that order and leaves \<open>d'\<close>.
\<close>

inductive inserted_all ::
  "create_document_fn \<Rightarrow> database \<Rightarrow> Product list \<Rightarrow> string list \<Rightarrow> database \<Rightarrow> bool"
where
  nothing: "inserted_all cd d [] [] d"
| one_more:
    "cd d ''product'' (ProductData p) = (Inr i, d1) \<Longrightarrow> inserted_all cd d1 ps is d2
     \<Longrightarrow> inserted_all cd d (p # ps) (i # is) d2"

code_pred inserted_all .

section \<open>A small catalogue\<close>

definition mk_variant :: "string \<Rightarrow> string \<Rightarrow> ProductVariant" where
  "mk_variant s c = \<lparr>size_v = s, color = c, sku = None, stock = 0\<rparr>"

definition lace_bra :: Product where
  "lace_bra =
     \<lparr>Product.title = ''Lace Bra'', description = None, Product.price = 20,
      compare_at_price = None, Product.category = ''Bras'', Product.subcategory = None,
      brand = Some ''Enamor'', rating = Some 4, rating_count = Some 0,
      Product.tags = Some [''lace''],
      variants = [mk_variant ''34B'' ''red'', mk_variant ''36B'' ''red'', mk_variant ''34B'' ''black''],
      images = [], is_active = True\<rparr>"

definition cotton_brief :: Product where
  "cotton_brief =
     \<lparr>Product.title = ''Cotton Brief'', description = Some ''Soft cotton'', Product.price = 10,
      compare_at_price = None, Product.category = ''Briefs'', Product.subcategory = None,
      brand = Some ''Enamor'', rating = None, rating_count = Some 0,
      Product.tags = Some [''basic''],
      variants = [mk_variant ''M'' ''black'', mk_variant ''L'' []],
      images = [], is_active = True\<rparr>"

definition old_slip :: Product where
  "old_slip =
     \<lparr>Product.title = ''Old Slip'', description = None, Product.price = 5,
      compare_at_price = None, Product.category = ''Slips'', Product.subcategory = None,
      brand = Some ''Enamor'', rating = Some 3, rating_count = Some 0, Product.tags = None,
      variants = [mk_variant ''M'' ''red''],
      images = [], is_active = False\<rparr>"

definition empty_db :: database where
  "empty_db = \<lparr>collections = (\<lambda>name. []), next_id = 0\<rparr>"

definition shop :: database where
  "shop =
     \<lparr>collections = (\<lambda>name. if name = ''product'' then
         [(Oid ''000000000000000000000000'', ProductData lace_bra),
          (Oid ''000000000000000000000001'', ProductData cotton_brief),
          (Oid ''000000000000000000000002'', ProductData old_slip)] else []),
      next_id = 3\<rparr>"

definition default_filters :: FilterRequest where
  "default_filters =
     \<lparr>FilterRequest.category = None, FilterRequest.subcategory = None, price_min = None,
      price_max = None, FilterRequest.colors = None, FilterRequest.sizes = None,
      FilterRequest.tags = None, sort_f = None, search = None,
      FilterRequest.page = 1, FilterRequest.limit = 24\<rparr>"

definition rejects_cotton_brief :: "doc_data \<Rightarrow> bool" where
  "rejects_cotton_brief data = (data = ProductData cotton_brief)"

definition accepts_all :: "doc_data \<Rightarrow> bool" where
  "accepts_all data = False"

definition shop_after_one :: database where
  "shop_after_one =
     \<lparr>collections = (collections empty_db)
        (''product'' := [(Oid ''000000000000000000000000'', ProductData lace_bra)]),
      next_id = 1\<rparr>"

definition shop_after_two :: database where
  "shop_after_two =
     \<lparr>collections = (collections shop_after_one)
        (''product'' := [(Oid ''000000000000000000000000'', ProductData lace_bra),
                         (Oid ''000000000000000000000001'', ProductData cotton_brief)]),
      next_id = 2\<rparr>"

section \<open>Evaluation of the examples\<close>

lemma to_hex_24_0: "to_hex 24 0 = ''000000000000000000000000''"
  by code_simp

lemma to_hex_24_1: "to_hex 24 (Suc 0) = ''000000000000000000000001''"
  by code_simp

lemma ObjectId_not_an_id: "ObjectId ''not-an-id'' = None"
  by (simp add: ObjectId_def)

lemma ObjectId_not_hex: "ObjectId ''not-a-valid-object-id-zz'' = None"
  by (simp add: ObjectId_def is_hex_def is_space_def)

lemma ObjectId_upper:
  "ObjectId ''00000000000000000000000A'' = Some (Oid ''00000000000000000000000a'')"
  by (simp add: ObjectId_def is_hex_def is_space_def to_lower_def)

lemma ObjectId_1:
  "ObjectId ''000000000000000000000001'' = Some (Oid ''000000000000000000000001'')"
  by (simp add: ObjectId_def is_hex_def is_space_def to_lower_def)

lemma ObjectId_spaced:
  "ObjectId ''0000 0000 0000 0000 0001'' = Some (Oid ''00000000000000000001'')"
  by (simp add: ObjectId_def is_hex_def is_space_def to_lower_def)

section \<open>The unconfigured database\<close>

text \<open>
  C3 (as amended). With no database handle, seed, search, get-by-id and create-order each
  raise \<^verbatim>\<open>HTTPException(status_code=500, detail="Database not configured")\<close>, whatever
  the request and whatever \<^verbatim>\<open>create_document\<close> would do: nothing is written and nothing
  is read. The status is 500 (internal server error), not 503 (service unavailable).
\<close>

theorem unconfigured_is_http_500:
  "seed_products cd None products = (Inl (HTTPException 500 ''Database not configured''), None) \<and>
   search_products rx None filters = Inl (HTTPException 500 ''Database not configured'') \<and>
   get_product None pid = Inl (HTTPException 500 ''Database not configured'') \<and>
   create_order cd None ord = (Inl (HTTPException 500 ''Database not configured''), None)"
  by (simp add: seed_products_def search_products_def get_product_def create_order_def)

theorem unconfigured_is_http_500_witness:
  "seed_products (create_document accepts_all) None [lace_bra] =
     (Inl (HTTPException 500 ''Database not configured''), None) \<and>
   search_products no_engine None default_filters =
     Inl (HTTPException 500 ''Database not configured'') \<and>
   get_product None ''000000000000000000000001'' =
     Inl (HTTPException 500 ''Database not configured'')"
  using unconfigured_is_http_500 [of "create_document accepts_all" "[lace_bra]" no_engine
      default_filters "''000000000000000000000001''"]
  by simp

text \<open>
  C3 as stated fails: the error of an unconfigured search carries status 500, which is
  not the service-unavailable status.
\<close>

theorem unconfigured_not_503_counterexample:
  "search_products no_engine None default_filters =
     Inl (HTTPException 500 ''Database not configured'') \<and>
   status_code (HTTPException 500 ''Database not configured'') \<noteq> HTTP_503_SERVICE_UNAVAILABLE"
  by (simp add: search_products_def HTTP_503_SERVICE_UNAVAILABLE_def)

section \<open>Bulk seeding\<close>

lemma seed_loop_inserted_all:
  "inserted_all cd d ps is d' \<Longrightarrow> seed_loop cd d ps acc = (Inr (acc @ is), d')"
  by (induction arbitrary: acc rule: inserted_all.induct) auto

lemma seed_loop_failure:
  "inserted_all cd d pre is d1 \<Longrightarrow> cd d1 ''product'' (ProductData p) = (Inl e, d2)
   \<Longrightarrow> seed_loop cd d (pre @ p # post) acc = (Inl e, d2)"
  by (induction arbitrary: acc rule: inserted_all.induct) auto

lemma inserted_all_length: "inserted_all cd d ps is d' \<Longrightarrow> length is = length ps"
  by (induction rule: inserted_all.induct) auto

text \<open>
  C5 (as amended). If every insert of a submission of \<open>n\<close> products succeeds, the response
  is \<^verbatim>\<open>{inserted: n, ids: [...]}\<close> with the generated identifiers in submission order. If
  the inserts of the products \<open>pre\<close> succeed and the next insert raises, the handler ends
  with that error and no response, the products \<open>post\<close> after it are not attempted, and the
  database is the one that the inserts of \<open>pre\<close> and the failed call left: what was
  inserted before the failure stays inserted.
\<close>

theorem seed_products_outcome:
  "(inserted_all cd d products new_ids d' \<longrightarrow>
      seed_products cd (Some d) products =
        (Inr \<lparr>inserted = length products, ids = new_ids\<rparr>, Some d')) \<and>
   (inserted_all cd d pre pre_ids d1 \<and> cd d1 ''product'' (ProductData p) = (Inl e, d2) \<longrightarrow>
      seed_products cd (Some d) (pre @ p # post) = (Inl e, Some d2))"
  by (auto simp: seed_products_def seed_loop_inserted_all [where acc = "[]", simplified]
      seed_loop_failure inserted_all_length)

lemma insert_lace_bra:
  "create_document rj empty_db ''product'' (ProductData lace_bra) =
     (if rj (ProductData lace_bra) then (Inl PyMongoError, empty_db)
      else (Inr ''000000000000000000000000'', shop_after_one))"
  by (simp add: create_document_def empty_db_def shop_after_one_def to_hex_24_0 Let_def)

lemma insert_cotton_brief:
  "create_document rj shop_after_one ''product'' (ProductData cotton_brief) =
     (if rj (ProductData cotton_brief) then (Inl PyMongoError, shop_after_one)
      else (Inr ''000000000000000000000001'', shop_after_two))"
  by (simp add: create_document_def shop_after_one_def shop_after_two_def to_hex_24_1 Let_def
      empty_db_def)

lemma lace_bra_not_cotton_brief: "lace_bra \<noteq> cotton_brief"
  by (simp add: lace_bra_def cotton_brief_def)

theorem seed_products_outcome_witness:
  "seed_products (create_document accepts_all) (Some empty_db) [lace_bra, cotton_brief] =
     (Inr \<lparr>inserted = 2, ids = [''000000000000000000000000'', ''000000000000000000000001'']\<rparr>,
      Some shop_after_two) \<and>
   seed_products (create_document rejects_cotton_brief) (Some empty_db)
       [lace_bra, cotton_brief, old_slip] =
     (Inl PyMongoError, Some shop_after_one)"
proof -
  have a2: "inserted_all (create_document accepts_all) shop_after_one [cotton_brief]
      [''000000000000000000000001''] shop_after_two"
    by (rule one_more, simp add: insert_cotton_brief accepts_all_def, rule nothing)
  have a: "inserted_all (create_document accepts_all) empty_db [lace_bra, cotton_brief]
      [''000000000000000000000000'', ''000000000000000000000001''] shop_after_two"
    by (rule one_more, simp add: insert_lace_bra accepts_all_def, rule a2)
  have b: "inserted_all (create_document rejects_cotton_brief) empty_db [lace_bra]
      [''000000000000000000000000''] shop_after_one"
    by (rule one_more,
        simp add: insert_lace_bra rejects_cotton_brief_def lace_bra_not_cotton_brief,
        rule nothing)
  have c: "create_document rejects_cotton_brief shop_after_one ''product'' (ProductData cotton_brief)
      = (Inl PyMongoError, shop_after_one)"
    by (simp add: insert_cotton_brief rejects_cotton_brief_def)
  show ?thesis
    using seed_products_outcome [where cd = "create_document accepts_all" and d = empty_db
        and products = "[lace_bra, cotton_brief]"
        and new_ids = "[''000000000000000000000000'', ''000000000000000000000001'']"
        and d' = shop_after_two] a
      seed_products_outcome [where cd = "create_document rejects_cotton_brief" and d = empty_db
        and pre = "[lace_bra]" and pre_ids = "[''000000000000000000000000'']"
        and ?d1.0 = shop_after_one and p = cotton_brief and e = PyMongoError
        and ?d2.0 = shop_after_one and post = "[old_slip]"] b c
    by simp
qed

text \<open>
  C5 as stated fails: when the second insert of a batch is refused, the handler ends with
  the error, and the collection, empty before, holds the first product.
\<close>

theorem seed_products_partial_counterexample:
  "fst (seed_products (create_document rejects_cotton_brief) (Some empty_db)
          [lace_bra, cotton_brief]) = Inl PyMongoError \<and>
   map_option (\<lambda>d. collections d ''product'')
     (snd (seed_products (create_document rejects_cotton_brief) (Some empty_db)
             [lace_bra, cotton_brief]))
     = Some [(Oid ''000000000000000000000000'', ProductData lace_bra)] \<and>
   collections empty_db ''product'' = []"
proof -
  have "seed_products (create_document rejects_cotton_brief) (Some empty_db)
          [lace_bra, cotton_brief] = (Inl PyMongoError, Some shop_after_one)"
    by (simp add: seed_products_def insert_lace_bra insert_cotton_brief rejects_cotton_brief_def
        lace_bra_not_cotton_brief)
  then show ?thesis
    by (simp add: shop_after_one_def empty_db_def)
qed

section \<open>Reading one product\<close>

lemma find_one_None: "find_one coll i = None \<longleftrightarrow> i \<notin> fst ` set coll"
  by (force simp: find_one_def find_None_iff)

lemma find_one_Some: "find_one coll i = Some doc \<Longrightarrow> doc \<in> set coll \<and> fst doc = i"
  by (auto simp: find_one_def find_Some_iff)

lemma hex_not_space: "is_hex c \<Longrightarrow> \<not> is_space c"
  by (auto simp: is_hex_def is_space_def)

lemma fromhex_digits:
  "list_all is_hex s \<Longrightarrow> even (length s) \<Longrightarrow> fromhex s = Some (map to_lower s)"
  by (induction s rule: fromhex.induct) (simp_all add: hex_not_space)

text \<open>
  C6 (as amended). With the database configured, \<^verbatim>\<open>get_product\<close> raises 400 exactly on the
  strings that \<^verbatim>\<open>ObjectId\<close> refuses: those that are not 24 characters long or that
  \<^verbatim>\<open>bytes.fromhex\<close> cannot read. A string of 24 hexadecimal digits is accepted and names the
  identifier it spells. On an accepted string that no document of the collection carries
  as its identifier \<^verbatim>\<open>get_product\<close> raises 404; otherwise it returns a stored record
  carrying that identifier, with the identifier as a plain string.
\<close>

theorem get_product_cases:
  "(ObjectId pid = None \<longleftrightarrow> length pid \<noteq> 24 \<or> fromhex pid = None) \<and>
   (well_formed_id pid \<longrightarrow> ObjectId pid = Some (Oid (map to_lower pid))) \<and>
   (ObjectId pid = None \<longrightarrow>
      get_product (Some d) pid = Inl (HTTPException 400 ''Invalid product id'')) \<and>
   (ObjectId pid = Some i \<and> i \<notin> fst ` set (collections d ''product'') \<longrightarrow>
      get_product (Some d) pid = Inl (HTTPException 404 ''Not found'')) \<and>
   (ObjectId pid = Some i \<and> i \<in> fst ` set (collections d ''product'') \<longrightarrow>
      (\<exists>data. (i, data) \<in> set (collections d ''product'') \<and>
              get_product (Some d) pid = Inr (str_oid i, data)))"
proof (intro conjI impI)
  show "ObjectId pid = None \<longleftrightarrow> length pid \<noteq> 24 \<or> fromhex pid = None"
    by (simp add: ObjectId_def)
next
  assume "well_formed_id pid"
  then show "ObjectId pid = Some (Oid (map to_lower pid))"
    by (simp add: well_formed_id_def ObjectId_def fromhex_digits)
next
  assume "ObjectId pid = None"
  then show "get_product (Some d) pid = Inl (HTTPException 400 ''Invalid product id'')"
    by (simp add: get_product_def)
next
  assume a: "ObjectId pid = Some i \<and> i \<notin> fst ` set (collections d ''product'')"
  then have "find_one (collections d ''product'') i = None"
    by (simp add: find_one_None)
  with a show "get_product (Some d) pid = Inl (HTTPException 404 ''Not found'')"
    by (simp add: get_product_def)
next
  assume a: "ObjectId pid = Some i \<and> i \<in> fst ` set (collections d ''product'')"
  then obtain doc where f: "find_one (collections d ''product'') i = Some doc"
    using find_one_None [of "collections d ''product''" i] by auto
  from find_one_Some [OF f] have "(i, snd doc) \<in> set (collections d ''product'')" and "fst doc = i"
    by (cases doc; simp)+
  with a f show "\<exists>data. (i, data) \<in> set (collections d ''product'') \<and>
              get_product (Some d) pid = Inr (str_oid i, data)"
    by (auto simp: get_product_def)
qed

theorem get_product_cases_witness:
  "get_product (Some shop) ''not-an-id'' = Inl (HTTPException 400 ''Invalid product id'') \<and>
   get_product (Some shop) ''not-a-valid-object-id-zz'' =
     Inl (HTTPException 400 ''Invalid product id'') \<and>
   get_product (Some shop) ''00000000000000000000000A'' = Inl (HTTPException 404 ''Not found'') \<and>
   get_product (Some shop) ''0000 0000 0000 0000 0001'' = Inl (HTTPException 404 ''Not found'') \<and>
   get_product (Some shop) ''000000000000000000000001'' =
     Inr (''000000000000000000000001'', ProductData cotton_brief) \<and>
   ObjectId ''00000000000000000000000A'' = Some (Oid (map to_lower ''00000000000000000000000A''))"
proof -
  have 1: "get_product (Some shop) ''not-an-id'' = Inl (HTTPException 400 ''Invalid product id'')"
    using get_product_cases [of "''not-an-id''" shop] ObjectId_not_an_id by simp
  have 2: "get_product (Some shop) ''not-a-valid-object-id-zz'' =
     Inl (HTTPException 400 ''Invalid product id'')"
    using get_product_cases [of "''not-a-valid-object-id-zz''" shop] ObjectId_not_hex by simp
  have 3: "get_product (Some shop) ''00000000000000000000000A'' = Inl (HTTPException 404 ''Not found'')"
    using get_product_cases [of "''00000000000000000000000A''" shop "Oid ''00000000000000000000000a''"]
      ObjectId_upper by (simp add: shop_def)
  have 4: "get_product (Some shop) ''0000 0000 0000 0000 0001'' = Inl (HTTPException 404 ''Not found'')"
    using get_product_cases [of "''0000 0000 0000 0000 0001''" shop "Oid ''00000000000000000001''"]
      ObjectId_spaced by (simp add: shop_def)
  have 5: "get_product (Some shop) ''000000000000000000000001'' =
     Inr (''000000000000000000000001'', ProductData cotton_brief)"
    using get_product_cases [of "''000000000000000000000001''" shop "Oid ''000000000000000000000001''"]
      ObjectId_1 by (auto simp add: shop_def)
  have w: "well_formed_id ''00000000000000000000000A''"
    by (simp add: well_formed_id_def is_hex_def)
  have 6: "ObjectId ''00000000000000000000000A'' =
      Some (Oid (map to_lower ''00000000000000000000000A''))"
    using get_product_cases [of "''00000000000000000000000A''"] w by blast
  from 1 2 3 4 5 6 show ?thesis by (intro conjI)
qed

text \<open>
  C6 as stated fails: a string of 24 characters that is not 24 hexadecimal digits, five
  groups of four digits with spaces between, is answered with 404, not 400.
\<close>

theorem get_product_whitespace_counterexample:
  "\<not> well_formed_id ''0000 0000 0000 0000 0001'' \<and>
   get_product (Some shop) ''0000 0000 0000 0000 0001'' = Inl (HTTPException 404 ''Not found'')"
proof -
  have "\<not> well_formed_id ''0000 0000 0000 0000 0001''"
    by (simp add: well_formed_id_def is_hex_def)
  moreover have "get_product (Some shop) ''0000 0000 0000 0000 0001'' =
      Inl (HTTPException 404 ''Not found'')"
    by (simp add: get_product_def ObjectId_spaced find_one_def shop_def)
  ultimately show ?thesis by (intro conjI)
qed

section \<open>What a search returns\<close>

lemma set_sort_desc_key [simp]: "set (sort_desc_key k xs) = set xs"
  by (simp add: sort_desc_key_def)

lemma set_sort_cursor [simp]: "set (sort_cursor spec docs) = set docs"
  by (induction spec docs rule: sort_cursor.induct) auto

lemma set_sorted_cursor:
  "set (sorted_cursor rx coll f) = {doc \<in> set coll. doc_matches rx (build_query f) doc}"
  by (auto simp: sorted_cursor_def find_docs_def Let_def split: option.splits)

lemma set_limit_cursor: "set (limit_cursor n xs) \<subseteq> set xs"
  by (auto simp: limit_cursor_def dest: in_set_takeD)

lemma set_skip_cursor: "set (skip_cursor n xs) \<subseteq> set xs"
  by (auto simp: skip_cursor_def dest: in_set_dropD)

text \<open>When a search answers, and with what.\<close>

lemma search_products_Inr:
  assumes "search_products rx db f = Inr r"
  obtains d where "db = Some d"
    and "query_ok rx (build_query f)"
    and "fits_int64 (skip_of f)" and "fits_int64 \<bar>FilterRequest.limit f\<bar>"
    and "search_response.total r = count_documents rx (collections d ''product'') (build_query f)"
    and "search_response.page r = FilterRequest.page f"
    and "search_response.limit r = FilterRequest.limit f"
    and "items r =
           map (\<lambda>item. (str_oid (fst item), snd item))
             (limit_cursor (FilterRequest.limit f)
                (skip_cursor (skip_of f) (sorted_cursor rx (collections d ''product'') f)))"
    and "facets.colors (facets r) =
           facet_entries (color_counts rx (collections d ''product'') (build_query f))"
    and "facets.sizes (facets r) =
           facet_entries (size_counts rx (collections d ''product'') (build_query f))"
  using assms
  by (cases db) (auto simp: search_products_def Let_def split: if_splits)

lemma items_from_matching:
  assumes "search_products rx (Some d) f = Inr r" and "(i, data) \<in> set (items r)"
  obtains j where "(j, data) \<in> set (collections d ''product'')"
    and "doc_matches rx (build_query f) (j, data)" and "i = str_oid j"
proof -
  from assms(1) have it: "items r =
      map (\<lambda>item. (str_oid (fst item), snd item))
        (limit_cursor (FilterRequest.limit f)
           (skip_cursor (skip_of f) (sorted_cursor rx (collections d ''product'') f)))"
    by (elim search_products_Inr) simp
  with assms(2) obtain doc where
    doc: "doc \<in> set (sorted_cursor rx (collections d ''product'') f)"
    and eq: "i = str_oid (fst doc)" "data = snd doc"
    using set_limit_cursor set_skip_cursor by fastforce
  from doc have "doc \<in> set (collections d ''product'')" "doc_matches rx (build_query f) doc"
    by (simp_all add: set_sorted_cursor)
  with eq show thesis
    using that [of "fst doc"] by simp
qed

lemma doc_matches_active:
  assumes "doc_matches rx (build_query f) (j, data)"
  obtains p where "data = ProductData p" and "is_active p"
proof (cases data)
  case (ProductData p)
  with assms have "is_active p"
    by (simp add: doc_matches_def build_query_def field_sat_def product_field_def)
  with ProductData show thesis by (rule that)
next
  case (OrderData ord)
  with assms show thesis
    by (simp add: doc_matches_def build_query_def field_sat_def)
qed

text \<open>
  C1. Whatever the filter request, every item of a search response is a product whose
  \<^verbatim>\<open>is_active\<close> flag is true.
\<close>

theorem search_returns_active_only:
  assumes "search_products rx db f = Inr r" and "(i, data) \<in> set (items r)"
  shows "\<exists>p. data = ProductData p \<and> is_active p"
proof -
  from assms(1) obtain d where "db = Some d"
    by (rule search_products_Inr)
  with assms obtain j where "doc_matches rx (build_query f) (j, data)"
    by (auto elim: items_from_matching)
  then show ?thesis
    by (auto elim: doc_matches_active)
qed

lemmas model_defs =
  search_products_def Let_def build_query_def when_truthy_def price_filter_def sort_spec_def
  skip_of_def sorted_cursor_def find_docs_def count_documents_def query_ok_def doc_matches_def
  field_sat_def product_field_def cmp_op_def sort_desc_key_def skip_cursor_def limit_cursor_def
  fits_int64_def unwind_variants_def group_count_def sort_count_desc_def facet_entries_def
  color_counts_def size_counts_def sort_value_def List.map_filter_def

lemmas sample_defs =
  shop_def default_filters_def lace_bra_def cotton_brief_def old_slip_def mk_variant_def

lemma shop_search_default:
  "search_products no_engine (Some shop) default_filters =
     Inr \<lparr>search_response.total = 2, page = 1, limit = 24,
          items = [(''000000000000000000000000'', ProductData lace_bra),
                   (''000000000000000000000001'', ProductData cotton_brief)],
          facets = \<lparr>facets.colors = [(''red'', 2), (''black'', 2)],
                    sizes = [(''34B'', 2), (''36B'', 1), (''M'', 1), (''L'', 1)]\<rparr>\<rparr>"
  by (simp add: model_defs sample_defs)

theorem search_returns_active_only_witness:
  "(''000000000000000000000001'', ProductData cotton_brief)
     \<in> set (items (projr (search_products no_engine (Some shop) default_filters))) \<and>
   (\<exists>p. ProductData cotton_brief = ProductData p \<and> is_active p)"
  using search_returns_active_only [of no_engine "Some shop" default_filters
      "projr (search_products no_engine (Some shop) default_filters)"
      "''000000000000000000000001''" "ProductData cotton_brief"]
  by (simp add: shop_search_default)

section \<open>The clauses of the query\<close>

lemma price_filter_upd [simp]:
  "price_filter (f\<lparr>FilterRequest.category := a\<rparr>) = price_filter f"
  "price_filter (f\<lparr>FilterRequest.subcategory := a\<rparr>) = price_filter f"
  "price_filter (f\<lparr>FilterRequest.colors := b\<rparr>) = price_filter f"
  "price_filter (f\<lparr>FilterRequest.sizes := b\<rparr>) = price_filter f"
  "price_filter (f\<lparr>FilterRequest.tags := b\<rparr>) = price_filter f"
  "price_filter (f\<lparr>search := a\<rparr>) = price_filter f"
  "price_filter (f\<lparr>sort_f := a\<rparr>) = price_filter f"
  by (simp_all add: price_filter_def)

lemma build_query_falsy:
  "build_query (f\<lparr>FilterRequest.category := Some []\<rparr>) = build_query (f\<lparr>FilterRequest.category := None\<rparr>)"
  "build_query (f\<lparr>FilterRequest.subcategory := Some []\<rparr>) = build_query (f\<lparr>FilterRequest.subcategory := None\<rparr>)"
  "build_query (f\<lparr>search := Some []\<rparr>) = build_query (f\<lparr>search := None\<rparr>)"
  "build_query (f\<lparr>FilterRequest.colors := Some []\<rparr>) = build_query (f\<lparr>FilterRequest.colors := None\<rparr>)"
  "build_query (f\<lparr>FilterRequest.sizes := Some []\<rparr>) = build_query (f\<lparr>FilterRequest.sizes := None\<rparr>)"
  "build_query (f\<lparr>FilterRequest.tags := Some []\<rparr>) = build_query (f\<lparr>FilterRequest.tags := None\<rparr>)"
  by (simp_all add: build_query_def when_truthy_def)

lemma sorted_cursor_cong:
  "build_query f = build_query g \<Longrightarrow> sort_spec f = sort_spec g
   \<Longrightarrow> sorted_cursor rx coll f = sorted_cursor rx coll g"
  by (simp add: sorted_cursor_def split: option.splits)

lemma search_products_cong:
  assumes "build_query f = build_query g" and "sort_spec f = sort_spec g"
    and "FilterRequest.page f = FilterRequest.page g"
    and "FilterRequest.limit f = FilterRequest.limit g"
  shows "search_products rx db f = search_products rx db g"
  using assms sorted_cursor_cong [of f g rx]
  by (cases db) (simp_all add: search_products_def skip_of_def Let_def)

lemma price_clause_present:
  "price_min f = Some a \<or> price_max f = Some b \<Longrightarrow>
     (''price'', QCond (QCmp (price_filter f))) \<in> set (build_query f)"
  by (auto simp: build_query_def price_filter_def split: option.splits)

lemma price_clause_applied:
  assumes "doc_matches rx (build_query f) (j, ProductData p)"
  shows "(price_min f = Some a \<longrightarrow> a \<le> Product.price p) \<and>
         (price_max f = Some b \<longrightarrow> Product.price p \<le> b)"
  using assms
  by (auto simp: doc_matches_def build_query_def price_filter_def field_sat_def
      product_field_def cmp_op_def split: option.splits if_splits)

text \<open>
  C10. A category, subcategory or search string that is present but empty, and a colors,
  sizes or tags list that is present but empty, leave the search exactly as if the field
  were absent. A price bound that is present, zero included, puts a \<^verbatim>\<open>price\<close> clause with
  its operator into the query, and every matching product respects it.
\<close>

theorem falsy_filters_are_absent:
  "search_products rx db (f\<lparr>FilterRequest.category := Some ''''\<rparr>) =
     search_products rx db (f\<lparr>FilterRequest.category := None\<rparr>) \<and>
   search_products rx db (f\<lparr>FilterRequest.subcategory := Some ''''\<rparr>) =
     search_products rx db (f\<lparr>FilterRequest.subcategory := None\<rparr>) \<and>
   search_products rx db (f\<lparr>search := Some ''''\<rparr>) =
     search_products rx db (f\<lparr>search := None\<rparr>) \<and>
   search_products rx db (f\<lparr>FilterRequest.colors := Some []\<rparr>) =
     search_products rx db (f\<lparr>FilterRequest.colors := None\<rparr>) \<and>
   search_products rx db (f\<lparr>FilterRequest.sizes := Some []\<rparr>) =
     search_products rx db (f\<lparr>FilterRequest.sizes := None\<rparr>) \<and>
   search_products rx db (f\<lparr>FilterRequest.tags := Some []\<rparr>) =
     search_products rx db (f\<lparr>FilterRequest.tags := None\<rparr>) \<and>
   (price_min f = Some a \<longrightarrow>
      (''price'', QCond (QCmp (price_filter f))) \<in> set (build_query f) \<and>
      (''$gte'', a) \<in> set (price_filter f)) \<and>
   (price_max f = Some b \<longrightarrow>
      (''price'', QCond (QCmp (price_filter f))) \<in> set (build_query f) \<and>
      (''$lte'', b) \<in> set (price_filter f)) \<and>
   (price_min f = Some a \<and> doc_matches rx (build_query f) (j, ProductData p) \<longrightarrow>
      a \<le> Product.price p) \<and>
   (price_max f = Some b \<and> doc_matches rx (build_query f) (j, ProductData p) \<longrightarrow>
      Product.price p \<le> b)"
proof -
  have c1: "search_products rx db (f\<lparr>FilterRequest.category := Some ''''\<rparr>) =
     search_products rx db (f\<lparr>FilterRequest.category := None\<rparr>)"
    by (rule search_products_cong) (simp_all add: build_query_falsy sort_spec_def)
  have c2: "search_products rx db (f\<lparr>FilterRequest.subcategory := Some ''''\<rparr>) =
     search_products rx db (f\<lparr>FilterRequest.subcategory := None\<rparr>)"
    by (rule search_products_cong) (simp_all add: build_query_falsy sort_spec_def)
  have c3: "search_products rx db (f\<lparr>search := Some ''''\<rparr>) =
     search_products rx db (f\<lparr>search := None\<rparr>)"
    by (rule search_products_cong) (simp_all add: build_query_falsy sort_spec_def)
  have c4: "search_products rx db (f\<lparr>FilterRequest.colors := Some []\<rparr>) =
     search_products rx db (f\<lparr>FilterRequest.colors := None\<rparr>)"
    by (rule search_products_cong) (simp_all add: build_query_falsy sort_spec_def)
  have c5: "search_products rx db (f\<lparr>FilterRequest.sizes := Some []\<rparr>) =
     search_products rx db (f\<lparr>FilterRequest.sizes := None\<rparr>)"
    by (rule search_products_cong) (simp_all add: build_query_falsy sort_spec_def)
  have c6: "search_products rx db (f\<lparr>FilterRequest.tags := Some []\<rparr>) =
     search_products rx db (f\<lparr>FilterRequest.tags := None\<rparr>)"
    by (rule search_products_cong) (simp_all add: build_query_falsy sort_spec_def)
  have c7: "price_min f = Some a \<longrightarrow>
      (''price'', QCond (QCmp (price_filter f))) \<in> set (build_query f) \<and>
      (''$gte'', a) \<in> set (price_filter f)"
    using price_clause_present [of f a] by (auto simp: price_filter_def)
  have c8: "price_max f = Some b \<longrightarrow>
      (''price'', QCond (QCmp (price_filter f))) \<in> set (build_query f) \<and>
      (''$lte'', b) \<in> set (price_filter f)"
    using price_clause_present [of f _ b] by (auto simp: price_filter_def)
  from c1 c2 c3 c4 c5 c6 c7 c8 price_clause_applied [of rx f j p a b]
  show ?thesis by blast
qed

theorem falsy_filters_are_absent_witness:
  "search_products no_engine (Some shop) (default_filters\<lparr>FilterRequest.category := Some ''''\<rparr>) =
     search_products no_engine (Some shop) default_filters \<and>
   search_products no_engine (Some shop) (default_filters\<lparr>FilterRequest.colors := Some []\<rparr>) =
     search_products no_engine (Some shop) default_filters \<and>
   build_query (default_filters\<lparr>price_min := Some 0\<rparr>) =
     [(''is_active'', QCond (QEq (BBool True))), (''price'', QCond (QCmp [(''$gte'', 0)]))] \<and>
   build_query default_filters = [(''is_active'', QCond (QEq (BBool True)))] \<and>
   (''price'', QCond (QCmp (price_filter (default_filters\<lparr>price_min := Some 0\<rparr>))))
     \<in> set (build_query (default_filters\<lparr>price_min := Some 0\<rparr>)) \<and>
   0 \<le> Product.price lace_bra"
proof -
  have a: "default_filters\<lparr>FilterRequest.category := None\<rparr> = default_filters"
    "default_filters\<lparr>FilterRequest.colors := None\<rparr> = default_filters"
    by (simp_all add: default_filters_def)
  have m: "doc_matches no_engine (build_query (default_filters\<lparr>price_min := Some 0\<rparr>))
     (Oid ''000000000000000000000000'', ProductData lace_bra)"
    by (simp add: model_defs sample_defs)
  have q: "build_query (default_filters\<lparr>price_min := Some 0\<rparr>) =
     [(''is_active'', QCond (QEq (BBool True))), (''price'', QCond (QCmp [(''$gte'', 0)]))]"
    "build_query default_filters = [(''is_active'', QCond (QEq (BBool True)))]"
    by (simp_all add: model_defs sample_defs)
  have pm: "price_min (default_filters\<lparr>price_min := Some 0\<rparr>) = Some 0"
    by simp
  show ?thesis
    using falsy_filters_are_absent [of no_engine "Some shop" default_filters 0 0
        "Oid ''000000000000000000000000''" lace_bra]
      falsy_filters_are_absent [of no_engine "Some shop" "default_filters\<lparr>price_min := Some 0\<rparr>"
        0 0 "Oid ''000000000000000000000000''" lace_bra] a m q pm
    by simp
qed

lemma when_truthy_simps:
  "when_truthy None g = []"
  "when_truthy (Some []) g = []"
  "v \<noteq> [] \<Longrightarrow> when_truthy (Some v) g = g v"
  by (simp_all add: when_truthy_def)

lemma doc_matches_iff:
  "doc_matches rx q doc \<longleftrightarrow> (\<forall>c\<in>set q. clause_matches rx (snd doc) c)"
  by (simp add: doc_matches_def list_all_iff)

lemma build_query_colors:
  "FilterRequest.colors f = Some cs \<Longrightarrow> cs \<noteq> [] \<Longrightarrow>
     set (build_query f) =
       insert (''variants.color'', QCond (QIn cs))
         (set (build_query (f\<lparr>FilterRequest.colors := None\<rparr>)))"
  by (simp add: build_query_def when_truthy_simps) blast

lemma build_query_sizes:
  "FilterRequest.sizes f = Some ss \<Longrightarrow> ss \<noteq> [] \<Longrightarrow>
     set (build_query f) =
       insert (''variants.size'', QCond (QIn ss))
         (set (build_query (f\<lparr>FilterRequest.sizes := None\<rparr>)))"
  by (simp add: build_query_def when_truthy_simps) blast

lemma build_query_tags:
  "FilterRequest.tags f = Some ts \<Longrightarrow> ts \<noteq> [] \<Longrightarrow>
     set (build_query f) =
       insert (''tags'', QCond (QIn ts))
         (set (build_query (f\<lparr>FilterRequest.tags := None\<rparr>)))"
  by (simp add: build_query_def when_truthy_simps) blast

lemma in_clause_color:
  "field_sat rx (ProductData p) ''variants.color'' (QIn cs) \<longleftrightarrow>
     (\<exists>v\<in>set (variants p). color v \<in> set cs)"
  by (simp add: field_sat_def product_field_def list_ex_iff)

lemma in_clause_size:
  "field_sat rx (ProductData p) ''variants.size'' (QIn ss) \<longleftrightarrow>
     (\<exists>v\<in>set (variants p). size_v v \<in> set ss)"
  by (simp add: field_sat_def product_field_def list_ex_iff)

lemma in_clause_tags:
  "field_sat rx (ProductData p) ''tags'' (QIn ts) \<longleftrightarrow>
     (\<exists>t\<in>set (case Product.tags p of None \<Rightarrow> [] | Some l \<Rightarrow> l). t \<in> set ts)"
  by (cases "Product.tags p") (simp_all add: field_sat_def product_field_def list_ex_iff)

lemma doc_matches_without_colors:
  assumes "FilterRequest.colors f = Some cs" and "cs \<noteq> []"
  shows "doc_matches rx (build_query f) (j, ProductData p) \<longleftrightarrow>
           (\<exists>v\<in>set (variants p). color v \<in> set cs) \<and>
           doc_matches rx (build_query (f\<lparr>FilterRequest.colors := None\<rparr>)) (j, ProductData p)"
  by (simp add: doc_matches_iff build_query_colors [OF assms] in_clause_color)

lemma doc_matches_without_sizes:
  assumes "FilterRequest.sizes f = Some ss" and "ss \<noteq> []"
  shows "doc_matches rx (build_query f) (j, ProductData p) \<longleftrightarrow>
           (\<exists>v\<in>set (variants p). size_v v \<in> set ss) \<and>
           doc_matches rx (build_query (f\<lparr>FilterRequest.sizes := None\<rparr>)) (j, ProductData p)"
  by (simp add: doc_matches_iff build_query_sizes [OF assms] in_clause_size)

lemma doc_matches_without_tags:
  assumes "FilterRequest.tags f = Some ts" and "ts \<noteq> []"
  shows "doc_matches rx (build_query f) (j, ProductData p) \<longleftrightarrow>
           (\<exists>t\<in>set (case Product.tags p of None \<Rightarrow> [] | Some l \<Rightarrow> l). t \<in> set ts) \<and>
           doc_matches rx (build_query (f\<lparr>FilterRequest.tags := None\<rparr>)) (j, ProductData p)"
  by (simp add: doc_matches_iff build_query_tags [OF assms] in_clause_tags)

text \<open>
  C7. With a non-empty colors (sizes) list in the request, a product matches the query
  exactly when one of its variants has a color (size) in the list and the product matches
  the query of the same request without that field; with a non-empty tags list, exactly
  when one of its tags is in the list and it matches the query without the tags. So for
  colors \<open>[X]\<close>, every returned item is a product with a variant of color \<open>X\<close>.
\<close>

theorem membership_clauses:
  "(FilterRequest.colors f = Some cs \<and> cs \<noteq> [] \<longrightarrow>
      (doc_matches rx (build_query f) (j, ProductData p) \<longleftrightarrow>
         (\<exists>v\<in>set (variants p). color v \<in> set cs) \<and>
         doc_matches rx (build_query (f\<lparr>FilterRequest.colors := None\<rparr>)) (j, ProductData p))) \<and>
   (FilterRequest.sizes f = Some ss \<and> ss \<noteq> [] \<longrightarrow>
      (doc_matches rx (build_query f) (j, ProductData p) \<longleftrightarrow>
         (\<exists>v\<in>set (variants p). size_v v \<in> set ss) \<and>
         doc_matches rx (build_query (f\<lparr>FilterRequest.sizes := None\<rparr>)) (j, ProductData p))) \<and>
   (FilterRequest.tags f = Some ts \<and> ts \<noteq> [] \<longrightarrow>
      (doc_matches rx (build_query f) (j, ProductData p) \<longleftrightarrow>
         (\<exists>t\<in>set (case Product.tags p of None \<Rightarrow> [] | Some l \<Rightarrow> l). t \<in> set ts) \<and>
         doc_matches rx (build_query (f\<lparr>FilterRequest.tags := None\<rparr>)) (j, ProductData p))) \<and>
   (search_products rx db f = Inr r \<and> FilterRequest.colors f = Some [X] \<and>
      (i, data) \<in> set (items r) \<longrightarrow>
      (\<exists>q. data = ProductData q \<and> (\<exists>v\<in>set (variants q). color v = X)))"
proof (intro conjI impI)
  assume a: "search_products rx db f = Inr r \<and> FilterRequest.colors f = Some [X] \<and>
      (i, data) \<in> set (items r)"
  then obtain d where "db = Some d"
    by (auto elim: search_products_Inr)
  with a obtain k where m: "doc_matches rx (build_query f) (k, data)"
    by (auto elim: items_from_matching)
  then obtain q where q: "data = ProductData q"
    by (auto elim: doc_matches_active)
  with a m doc_matches_without_colors [of f "[X]" rx k q]
  show "\<exists>q. data = ProductData q \<and> (\<exists>v\<in>set (variants q). color v = X)"
    by auto
qed (simp_all add: doc_matches_without_colors doc_matches_without_sizes doc_matches_without_tags)

lemma shop_search_red:
  "search_products no_engine (Some shop) (default_filters\<lparr>FilterRequest.colors := Some [''red'']\<rparr>) =
     Inr \<lparr>search_response.total = 1, page = 1, limit = 24,
          items = [(''000000000000000000000000'', ProductData lace_bra)],
          facets = \<lparr>facets.colors = [(''red'', 2), (''black'', 1)],
                    sizes = [(''34B'', 2), (''36B'', 1)]\<rparr>\<rparr>"
  by (simp add: model_defs sample_defs)

theorem membership_clauses_witness:
  "doc_matches no_engine (build_query (default_filters\<lparr>FilterRequest.colors := Some [''red'']\<rparr>))
     (Oid ''000000000000000000000000'', ProductData lace_bra) \<and>
   \<not> doc_matches no_engine (build_query (default_filters\<lparr>FilterRequest.colors := Some [''red'']\<rparr>))
     (Oid ''000000000000000000000001'', ProductData cotton_brief) \<and>
   doc_matches no_engine (build_query (default_filters\<lparr>FilterRequest.sizes := Some [''M'', ''S'']\<rparr>))
     (Oid ''000000000000000000000001'', ProductData cotton_brief) \<and>
   doc_matches no_engine (build_query (default_filters\<lparr>FilterRequest.tags := Some [''basic'']\<rparr>))
     (Oid ''000000000000000000000001'', ProductData cotton_brief) \<and>
   (\<exists>q. ProductData lace_bra = ProductData q \<and> (\<exists>v\<in>set (variants q). color v = ''red''))"
proof -
  let ?red = "default_filters\<lparr>FilterRequest.colors := Some [''red'']\<rparr>"
  let ?ms = "default_filters\<lparr>FilterRequest.sizes := Some [''M'', ''S'']\<rparr>"
  let ?basic = "default_filters\<lparr>FilterRequest.tags := Some [''basic'']\<rparr>"
  have base: "?red\<lparr>FilterRequest.colors := None\<rparr> = default_filters"
    "?ms\<lparr>FilterRequest.sizes := None\<rparr> = default_filters"
    "?basic\<lparr>FilterRequest.tags := None\<rparr> = default_filters"
    by (simp_all add: default_filters_def)
  have m: "doc_matches no_engine (build_query default_filters)
       (Oid ''000000000000000000000000'', ProductData lace_bra)"
    "doc_matches no_engine (build_query default_filters)
       (Oid ''000000000000000000000001'', ProductData cotton_brief)"
    by (simp_all add: model_defs sample_defs)
  have v: "\<exists>v\<in>set (variants lace_bra). color v \<in> set [''red'']"
    "\<not> (\<exists>v\<in>set (variants cotton_brief). color v \<in> set [''red''])"
    "\<exists>v\<in>set (variants cotton_brief). size_v v \<in> set [''M'', ''S'']"
    "\<exists>t\<in>set (case Product.tags cotton_brief of None \<Rightarrow> [] | Some l \<Rightarrow> l). t \<in> set [''basic'']"
    by (simp_all add: sample_defs)
  have 1: "doc_matches no_engine (build_query ?red)
     (Oid ''000000000000000000000000'', ProductData lace_bra)"
    using membership_clauses [of ?red "[''red'']" no_engine "Oid ''000000000000000000000000''" lace_bra]
      base m v by simp
  have 2: "\<not> doc_matches no_engine (build_query ?red)
     (Oid ''000000000000000000000001'', ProductData cotton_brief)"
    using membership_clauses [of ?red "[''red'']" no_engine "Oid ''000000000000000000000001''"
        cotton_brief] base m v by simp
  have 3: "doc_matches no_engine (build_query ?ms)
     (Oid ''000000000000000000000001'', ProductData cotton_brief)"
    using membership_clauses [of ?ms _ no_engine "Oid ''000000000000000000000001''" cotton_brief
        "[''M'', ''S'']"] base m v by simp
  have 4: "doc_matches no_engine (build_query ?basic)
     (Oid ''000000000000000000000001'', ProductData cotton_brief)"
    using membership_clauses [of ?basic _ no_engine "Oid ''000000000000000000000001''" cotton_brief
        _ "[''basic'']"] base m v by simp
  have 5: "\<exists>q. ProductData lace_bra = ProductData q \<and> (\<exists>v\<in>set (variants q). color v = ''red'')"
    using membership_clauses [of ?red _ no_engine _ _ _ _ "Some shop"
        "projr (search_products no_engine (Some shop) ?red)" "''red''"
        "''000000000000000000000000''" "ProductData lace_bra"]
    by (simp add: shop_search_red)
  from 1 2 3 4 5 show ?thesis by blast
qed

section \<open>Pagination and sorting\<close>

lemma items_of_search:
  assumes "search_products rx (Some d) f = Inr r"
  shows "items r =
           map (\<lambda>item. (str_oid (fst item), snd item))
             (limit_cursor (FilterRequest.limit f)
                (skip_cursor (skip_of f) (sorted_cursor rx (collections d ''product'') f)))"
  using assms by (elim search_products_Inr) simp

text \<open>
  C8 (as amended). A search that answers skips \<open>max(0, (page - 1) * limit)\<close> documents of
  the filtered and sorted result, whatever the limit. With a positive limit it returns the
  next \<open>limit\<close> documents, or as many as are left, so at most \<open>limit\<close>; page 2 with limit 10
  gives the documents 11 to 20. With limit 0 it returns every document left after the
  skip. With a negative limit it returns the next \<open>- limit\<close> documents, or as many as are
  left.
\<close>

theorem pagination:
  assumes "search_products rx (Some d) f = Inr r"
  shows
    "(0 < FilterRequest.limit f \<longrightarrow>
        items r =
          map (\<lambda>item. (str_oid (fst item), snd item))
            (take (nat (FilterRequest.limit f))
               (drop (nat (max 0 ((FilterRequest.page f - 1) * FilterRequest.limit f)))
                  (sorted_cursor rx (collections d ''product'') f))) \<and>
        int (length (items r)) \<le> FilterRequest.limit f) \<and>
     (FilterRequest.page f = 2 \<and> FilterRequest.limit f = 10 \<longrightarrow>
        items r =
          map (\<lambda>item. (str_oid (fst item), snd item))
            (take 10 (drop 10 (sorted_cursor rx (collections d ''product'') f)))) \<and>
     (FilterRequest.limit f = 0 \<longrightarrow>
        items r =
          map (\<lambda>item. (str_oid (fst item), snd item))
            (drop (nat (max 0 ((FilterRequest.page f - 1) * FilterRequest.limit f)))
               (sorted_cursor rx (collections d ''product'') f))) \<and>
     (FilterRequest.limit f < 0 \<longrightarrow>
        items r =
          map (\<lambda>item. (str_oid (fst item), snd item))
            (take (nat (- FilterRequest.limit f))
               (drop (nat (max 0 ((FilterRequest.page f - 1) * FilterRequest.limit f)))
                  (sorted_cursor rx (collections d ''product'') f))))"
  by (auto simp: items_of_search [OF assms] limit_cursor_def skip_cursor_def skip_of_def)

lemma shop_search_page_2:
  "search_products no_engine (Some shop)
     (default_filters\<lparr>FilterRequest.page := 2, FilterRequest.limit := 1\<rparr>) =
     Inr \<lparr>search_response.total = 2, page = 2, limit = 1,
          items = [(''000000000000000000000001'', ProductData cotton_brief)],
          facets = \<lparr>facets.colors = [(''red'', 2), (''black'', 2)],
                    sizes = [(''34B'', 2), (''36B'', 1), (''M'', 1), (''L'', 1)]\<rparr>\<rparr>"
  by (simp add: model_defs sample_defs)

lemma shop_search_limit_0:
  "search_products no_engine (Some shop) (default_filters\<lparr>FilterRequest.limit := 0\<rparr>) =
     Inr \<lparr>search_response.total = 2, page = 1, limit = 0,
          items = [(''000000000000000000000000'', ProductData lace_bra),
                   (''000000000000000000000001'', ProductData cotton_brief)],
          facets = \<lparr>facets.colors = [(''red'', 2), (''black'', 2)],
                    sizes = [(''34B'', 2), (''36B'', 1), (''M'', 1), (''L'', 1)]\<rparr>\<rparr>"
  by (simp add: model_defs sample_defs)

lemma shop_search_limit_minus_1:
  "search_products no_engine (Some shop)
     (default_filters\<lparr>FilterRequest.page := 0, FilterRequest.limit := - 1\<rparr>) =
     Inr \<lparr>search_response.total = 2, page = 0, limit = - 1,
          items = [(''000000000000000000000001'', ProductData cotton_brief)],
          facets = \<lparr>facets.colors = [(''red'', 2), (''black'', 2)],
                    sizes = [(''34B'', 2), (''36B'', 1), (''M'', 1), (''L'', 1)]\<rparr>\<rparr>"
  by (simp add: model_defs sample_defs)

lemma shop_sorted_cursor:
  "sorted_cursor no_engine (collections shop ''product'')
     (default_filters\<lparr>FilterRequest.page := pg, FilterRequest.limit := lm\<rparr>) =
     [(Oid ''000000000000000000000000'', ProductData lace_bra),
      (Oid ''000000000000000000000001'', ProductData cotton_brief)]"
  by (simp add: model_defs sample_defs)

theorem pagination_witness:
  "items (projr (search_products no_engine (Some shop)
       (default_filters\<lparr>FilterRequest.page := 2, FilterRequest.limit := 1\<rparr>))) =
     map (\<lambda>item. (str_oid (fst item), snd item))
       (take 1 (drop 1 [(Oid ''000000000000000000000000'', ProductData lace_bra),
                        (Oid ''000000000000000000000001'', ProductData cotton_brief)])) \<and>
   items (projr (search_products no_engine (Some shop)
       (default_filters\<lparr>FilterRequest.page := 1, FilterRequest.limit := 0\<rparr>))) =
     map (\<lambda>item. (str_oid (fst item), snd item))
       [(Oid ''000000000000000000000000'', ProductData lace_bra),
        (Oid ''000000000000000000000001'', ProductData cotton_brief)] \<and>
   items (projr (search_products no_engine (Some shop)
       (default_filters\<lparr>FilterRequest.page := 0, FilterRequest.limit := - 1\<rparr>))) =
     map (\<lambda>item. (str_oid (fst item), snd item))
       (take 1 (drop 1 [(Oid ''000000000000000000000000'', ProductData lace_bra),
                        (Oid ''000000000000000000000001'', ProductData cotton_brief)]))"
proof -
  let ?f = "default_filters\<lparr>FilterRequest.page := 2, FilterRequest.limit := 1\<rparr>"
  let ?g = "default_filters\<lparr>FilterRequest.page := 1, FilterRequest.limit := 0\<rparr>"
  let ?h = "default_filters\<lparr>FilterRequest.page := 0, FilterRequest.limit := - 1\<rparr>"
  have g: "?g = default_filters\<lparr>FilterRequest.limit := 0\<rparr>"
    by (simp add: default_filters_def)
  have a: "search_products no_engine (Some shop) ?f =
      Inr (projr (search_products no_engine (Some shop) ?f))"
    by (simp add: shop_search_page_2)
  have b: "search_products no_engine (Some shop) ?g =
      Inr (projr (search_products no_engine (Some shop) ?g))"
    by (simp add: g shop_search_limit_0)
  have c: "search_products no_engine (Some shop) ?h =
      Inr (projr (search_products no_engine (Some shop) ?h))"
    by (simp add: shop_search_limit_minus_1)
  show ?thesis
    using pagination [OF a] pagination [OF b] pagination [OF c]
    by (simp add: shop_sorted_cursor)
qed

text \<open>
  C8 as stated fails: with limit 0 the search answers with two items, more than the limit.
\<close>

theorem limit_zero_counterexample:
  "\<not> isl (search_products no_engine (Some shop) (default_filters\<lparr>FilterRequest.limit := 0\<rparr>)) \<and>
   length (items (projr (search_products no_engine (Some shop)
      (default_filters\<lparr>FilterRequest.limit := 0\<rparr>)))) = 2 \<and>
   \<not> int (length (items (projr (search_products no_engine (Some shop)
            (default_filters\<lparr>FilterRequest.limit := 0\<rparr>)))))
       \<le> FilterRequest.limit (default_filters\<lparr>FilterRequest.limit := 0\<rparr>)"
  by (simp add: shop_search_limit_0)

lemma sorted_wrt_page:
  "sorted_wrt P (map k ys) \<Longrightarrow>
     sorted_wrt P (map k (limit_cursor l (skip_cursor s ys)))"
  by (simp add: limit_cursor_def skip_cursor_def sorted_wrt_take sorted_wrt_drop
      flip: take_map drop_map)

lemma sorted_sort_desc_key: "sorted_wrt (\<ge>) (map k (sort_desc_key k xs))"
  by (simp add: sort_desc_key_def sorted_wrt_rev sorted_sort_key flip: rev_map)

lemma sorted_cursor_price_asc:
  "sort_f f = Some ''price_asc'' \<Longrightarrow>
     sorted (map (\<lambda>doc. sort_value ''price'' (snd doc)) (sorted_cursor rx coll f))"
  by (simp add: sorted_cursor_def sort_spec_def sorted_sort_key)

lemma sorted_cursor_price_desc:
  "sort_f f = Some ''price_desc'' \<Longrightarrow>
     sorted_wrt (\<ge>) (map (\<lambda>doc. sort_value ''price'' (snd doc)) (sorted_cursor rx coll f))"
  by (simp add: sorted_cursor_def sort_spec_def sorted_sort_desc_key)

lemma sorted_cursor_rating:
  "sort_f f = Some ''rating'' \<Longrightarrow>
     sorted_wrt (\<ge>) (map (\<lambda>doc. sort_value ''rating'' (snd doc)) (sorted_cursor rx coll f))"
  by (simp add: sorted_cursor_def sort_spec_def sorted_sort_desc_key)

lemma sorted_cursor_natural:
  "sort_f f \<noteq> Some ''price_asc'' \<Longrightarrow> sort_f f \<noteq> Some ''price_desc'' \<Longrightarrow>
   sort_f f \<noteq> Some ''rating'' \<Longrightarrow>
     sorted_cursor rx coll f = filter (doc_matches rx (build_query f)) coll"
  by (simp add: sorted_cursor_def sort_spec_def find_docs_def)

lemma sort_value_product:
  "sort_value ''price'' (ProductData p) = Some (Product.price p)"
  "sort_value ''rating'' (ProductData p) = rating p"
  by (simp_all add: sort_value_def product_field_def split: option.splits)

lemma build_query_sort [simp]: "build_query (f\<lparr>sort_f := t\<rparr>) = build_query f"
  by (simp add: build_query_def)

lemma count_list_insort_key:
  "count_list (insort_key k a xs) x = count_list (a # xs) x"
  by (induction xs) auto

lemma count_list_sort_key: "count_list (sort_key k xs) x = count_list xs x"
  by (induction xs) (simp_all add: sort_key_def count_list_insort_key)

lemma count_list_sort_cursor: "count_list (sort_cursor spec docs) x = count_list docs x"
  by (induction spec docs rule: sort_cursor.induct)
    (simp_all add: sort_desc_key_def count_list_sort_key)

lemma count_list_sorted_cursor:
  "count_list (sorted_cursor rx coll f) x =
     count_list (filter (doc_matches rx (build_query f)) coll) x"
  by (simp add: sorted_cursor_def find_docs_def Let_def count_list_sort_cursor
      split: option.splits)

text \<open>
  C9. A search that answers with \<^verbatim>\<open>sort\<close> equal to \<^verbatim>\<open>price_asc\<close> returns a page whose prices
  never decrease; with \<^verbatim>\<open>price_desc\<close> a page whose prices never increase; with \<^verbatim>\<open>rating\<close> a
  page whose ratings never increase (a missing rating counting as least). With any other
  tag, or none, the search is the search without a sort tag, and that one returns the
  matching documents in their natural order. The sort keys of the returned items are the
  prices and ratings of the products. In every mode the page is cut, by the skip and the
  limit, from a list that holds each matching document as often as the collection does
  and that is in the order of the mode: under a sort tag the matching documents are
  rearranged, none is lost and none is added.
\<close>

theorem sort_modes:
  "(search_products rx db f = Inr r \<and> sort_f f = Some ''price_asc'' \<longrightarrow>
      sorted (map (\<lambda>item. sort_value ''price'' (snd item)) (items r))) \<and>
   (search_products rx db f = Inr r \<and> sort_f f = Some ''price_desc'' \<longrightarrow>
      sorted_wrt (\<ge>) (map (\<lambda>item. sort_value ''price'' (snd item)) (items r))) \<and>
   (search_products rx db f = Inr r \<and> sort_f f = Some ''rating'' \<longrightarrow>
      sorted_wrt (\<ge>) (map (\<lambda>item. sort_value ''rating'' (snd item)) (items r))) \<and>
   (sort_f f \<noteq> Some ''price_asc'' \<and> sort_f f \<noteq> Some ''price_desc'' \<and>
    sort_f f \<noteq> Some ''rating'' \<longrightarrow>
      search_products rx db f = search_products rx db (f\<lparr>sort_f := None\<rparr>)) \<and>
   (search_products rx (Some d) f = Inr r \<and> sort_f f = None \<longrightarrow>
      items r =
        map (\<lambda>item. (str_oid (fst item), snd item))
          (limit_cursor (FilterRequest.limit f)
             (skip_cursor (skip_of f)
                (filter (doc_matches rx (build_query f)) (collections d ''product''))))) \<and>
   (search_products rx db f = Inr r \<and> (i, data) \<in> set (items r) \<longrightarrow>
      (\<exists>p. data = ProductData p \<and> sort_value ''price'' data = Some (Product.price p) \<and>
           sort_value ''rating'' data = rating p)) \<and>
   (search_products rx (Some d) f = Inr r \<longrightarrow>
      (\<exists>result.
         (\<forall>doc. count_list result doc =
            count_list (filter (doc_matches rx (build_query f)) (collections d ''product'')) doc) \<and>
         (sort_f f = Some ''price_asc'' \<longrightarrow>
            sorted (map (\<lambda>doc. sort_value ''price'' (snd doc)) result)) \<and>
         (sort_f f = Some ''price_desc'' \<longrightarrow>
            sorted_wrt (\<ge>) (map (\<lambda>doc. sort_value ''price'' (snd doc)) result)) \<and>
         (sort_f f = Some ''rating'' \<longrightarrow>
            sorted_wrt (\<ge>) (map (\<lambda>doc. sort_value ''rating'' (snd doc)) result)) \<and>
         (sort_f f \<noteq> Some ''price_asc'' \<and> sort_f f \<noteq> Some ''price_desc'' \<and>
          sort_f f \<noteq> Some ''rating'' \<longrightarrow>
            result = filter (doc_matches rx (build_query f)) (collections d ''product'')) \<and>
         items r =
           map (\<lambda>item. (str_oid (fst item), snd item))
             (if FilterRequest.limit f = 0
              then drop (nat (max 0 ((FilterRequest.page f - 1) * FilterRequest.limit f))) result
              else take (nat \<bar>FilterRequest.limit f\<bar>)
                     (drop (nat (max 0 ((FilterRequest.page f - 1) * FilterRequest.limit f)))
                        result))))"
proof (intro conjI impI)
  assume s: "search_products rx (Some d) f = Inr r"
  let ?result = "sorted_cursor rx (collections d ''product'') f"
  have "items r =
      map (\<lambda>item. (str_oid (fst item), snd item))
        (if FilterRequest.limit f = 0
         then drop (nat (max 0 ((FilterRequest.page f - 1) * FilterRequest.limit f))) ?result
         else take (nat \<bar>FilterRequest.limit f\<bar>)
                (drop (nat (max 0 ((FilterRequest.page f - 1) * FilterRequest.limit f)))
                   ?result))"
    by (simp add: items_of_search [OF s] limit_cursor_def skip_cursor_def skip_of_def)
  then show "\<exists>result.
         (\<forall>doc. count_list result doc =
            count_list (filter (doc_matches rx (build_query f)) (collections d ''product'')) doc) \<and>
         (sort_f f = Some ''price_asc'' \<longrightarrow>
            sorted (map (\<lambda>doc. sort_value ''price'' (snd doc)) result)) \<and>
         (sort_f f = Some ''price_desc'' \<longrightarrow>
            sorted_wrt (\<ge>) (map (\<lambda>doc. sort_value ''price'' (snd doc)) result)) \<and>
         (sort_f f = Some ''rating'' \<longrightarrow>
            sorted_wrt (\<ge>) (map (\<lambda>doc. sort_value ''rating'' (snd doc)) result)) \<and>
         (sort_f f \<noteq> Some ''price_asc'' \<and> sort_f f \<noteq> Some ''price_desc'' \<and>
          sort_f f \<noteq> Some ''rating'' \<longrightarrow>
            result = filter (doc_matches rx (build_query f)) (collections d ''product'')) \<and>
         items r =
           map (\<lambda>item. (str_oid (fst item), snd item))
             (if FilterRequest.limit f = 0
              then drop (nat (max 0 ((FilterRequest.page f - 1) * FilterRequest.limit f))) result
              else take (nat \<bar>FilterRequest.limit f\<bar>)
                     (drop (nat (max 0 ((FilterRequest.page f - 1) * FilterRequest.limit f)))
                        result))"
    by (intro exI [of _ ?result] conjI allI impI)
      (simp_all add: count_list_sorted_cursor sorted_cursor_price_asc sorted_cursor_price_desc
        sorted_cursor_rating sorted_cursor_natural)
next
  assume a: "search_products rx db f = Inr r \<and> sort_f f = Some ''price_asc''"
  then obtain d where "db = Some d" by (auto elim: search_products_Inr)
  with a have s: "search_products rx (Some d) f = Inr r" by simp
  have "sorted (map (\<lambda>doc. sort_value ''price'' (snd doc))
      (limit_cursor (FilterRequest.limit f)
         (skip_cursor (skip_of f) (sorted_cursor rx (collections d ''product'') f))))"
    using a by (intro sorted_wrt_page sorted_cursor_price_asc) simp
  then show "sorted (map (\<lambda>item. sort_value ''price'' (snd item)) (items r))"
    by (simp add: items_of_search [OF s] comp_def)
next
  assume a: "search_products rx db f = Inr r \<and> sort_f f = Some ''price_desc''"
  then obtain d where "db = Some d" by (auto elim: search_products_Inr)
  with a have s: "search_products rx (Some d) f = Inr r" by simp
  have "sorted_wrt (\<ge>) (map (\<lambda>doc. sort_value ''price'' (snd doc))
      (limit_cursor (FilterRequest.limit f)
         (skip_cursor (skip_of f) (sorted_cursor rx (collections d ''product'') f))))"
    using a by (intro sorted_wrt_page sorted_cursor_price_desc) simp
  then show "sorted_wrt (\<ge>) (map (\<lambda>item. sort_value ''price'' (snd item)) (items r))"
    by (simp add: items_of_search [OF s] comp_def)
next
  assume a: "search_products rx db f = Inr r \<and> sort_f f = Some ''rating''"
  then obtain d where "db = Some d" by (auto elim: search_products_Inr)
  with a have s: "search_products rx (Some d) f = Inr r" by simp
  have "sorted_wrt (\<ge>) (map (\<lambda>doc. sort_value ''rating'' (snd doc))
      (limit_cursor (FilterRequest.limit f)
         (skip_cursor (skip_of f) (sorted_cursor rx (collections d ''product'') f))))"
    using a by (intro sorted_wrt_page sorted_cursor_rating) simp
  then show "sorted_wrt (\<ge>) (map (\<lambda>item. sort_value ''rating'' (snd item)) (items r))"
    by (simp add: items_of_search [OF s] comp_def)
next
  assume "sort_f f \<noteq> Some ''price_asc'' \<and> sort_f f \<noteq> Some ''price_desc'' \<and>
    sort_f f \<noteq> Some ''rating''"
  then show "search_products rx db f = search_products rx db (f\<lparr>sort_f := None\<rparr>)"
    by (intro search_products_cong) (simp_all add: sort_spec_def)
next
  assume a: "search_products rx (Some d) f = Inr r \<and> sort_f f = None"
  then have s: "search_products rx (Some d) f = Inr r" by simp
  from a show "items r =
        map (\<lambda>item. (str_oid (fst item), snd item))
          (limit_cursor (FilterRequest.limit f)
             (skip_cursor (skip_of f)
                (filter (doc_matches rx (build_query f)) (collections d ''product''))))"
    by (simp add: items_of_search [OF s] sorted_cursor_natural)
next
  assume a: "search_products rx db f = Inr r \<and> (i, data) \<in> set (items r)"
  then obtain d where "db = Some d" by (auto elim: search_products_Inr)
  with a obtain j where "doc_matches rx (build_query f) (j, data)"
    by (auto elim: items_from_matching)
  then obtain p where "data = ProductData p"
    by (auto elim: doc_matches_active)
  then show "\<exists>p. data = ProductData p \<and> sort_value ''price'' data = Some (Product.price p) \<and>
           sort_value ''rating'' data = rating p"
    by (simp add: sort_value_product)
qed

lemma shop_search_price_asc:
  "search_products no_engine (Some shop) (default_filters\<lparr>sort_f := Some ''price_asc''\<rparr>) =
     Inr \<lparr>search_response.total = 2, page = 1, limit = 24,
          items = [(''000000000000000000000001'', ProductData cotton_brief),
                   (''000000000000000000000000'', ProductData lace_bra)],
          facets = \<lparr>facets.colors = [(''red'', 2), (''black'', 2)],
                    sizes = [(''34B'', 2), (''36B'', 1), (''M'', 1), (''L'', 1)]\<rparr>\<rparr>"
  by (simp add: model_defs sample_defs)

lemma shop_search_price_desc:
  "search_products no_engine (Some shop) (default_filters\<lparr>sort_f := Some ''price_desc''\<rparr>) =
     Inr \<lparr>search_response.total = 2, page = 1, limit = 24,
          items = [(''000000000000000000000000'', ProductData lace_bra),
                   (''000000000000000000000001'', ProductData cotton_brief)],
          facets = \<lparr>facets.colors = [(''red'', 2), (''black'', 2)],
                    sizes = [(''34B'', 2), (''36B'', 1), (''M'', 1), (''L'', 1)]\<rparr>\<rparr>"
  by (simp add: model_defs sample_defs)

lemma shop_search_rating:
  "search_products no_engine (Some shop) (default_filters\<lparr>sort_f := Some ''rating''\<rparr>) =
     Inr \<lparr>search_response.total = 2, page = 1, limit = 24,
          items = [(''000000000000000000000000'', ProductData lace_bra),
                   (''000000000000000000000001'', ProductData cotton_brief)],
          facets = \<lparr>facets.colors = [(''red'', 2), (''black'', 2)],
                    sizes = [(''34B'', 2), (''36B'', 1), (''M'', 1), (''L'', 1)]\<rparr>\<rparr>"
  by (simp add: model_defs sample_defs)

lemma shop_matching_sort:
  "filter (doc_matches no_engine (build_query (default_filters\<lparr>sort_f := t\<rparr>)))
     (collections shop ''product'') =
     [(Oid ''000000000000000000000000'', ProductData lace_bra),
      (Oid ''000000000000000000000001'', ProductData cotton_brief)]"
  by (simp add: model_defs sample_defs)

theorem sort_modes_witness:
  "map fst (items (projr (search_products no_engine (Some shop)
      (default_filters\<lparr>sort_f := Some ''price_asc''\<rparr>)))) =
     [''000000000000000000000001'', ''000000000000000000000000''] \<and>
   sorted (map (\<lambda>item. sort_value ''price'' (snd item))
     (items (projr (search_products no_engine (Some shop)
        (default_filters\<lparr>sort_f := Some ''price_asc''\<rparr>))))) \<and>
   sorted_wrt (\<ge>) (map (\<lambda>item. sort_value ''price'' (snd item))
     (items (projr (search_products no_engine (Some shop)
        (default_filters\<lparr>sort_f := Some ''price_desc''\<rparr>))))) \<and>
   sorted_wrt (\<ge>) (map (\<lambda>item. sort_value ''rating'' (snd item))
     (items (projr (search_products no_engine (Some shop)
        (default_filters\<lparr>sort_f := Some ''rating''\<rparr>))))) \<and>
   search_products no_engine (Some shop) (default_filters\<lparr>sort_f := Some ''newest''\<rparr>) =
     search_products no_engine (Some shop) default_filters \<and>
   sort_value ''price'' (ProductData cotton_brief) = Some 10 \<and>
   sort_value ''rating'' (ProductData cotton_brief) = None \<and>
   (\<exists>result.
      (\<forall>doc. count_list result doc =
         count_list [(Oid ''000000000000000000000000'', ProductData lace_bra),
                     (Oid ''000000000000000000000001'', ProductData cotton_brief)] doc) \<and>
      sorted (map (\<lambda>doc. sort_value ''price'' (snd doc)) result) \<and>
      items (projr (search_products no_engine (Some shop)
         (default_filters\<lparr>sort_f := Some ''price_asc''\<rparr>))) =
        map (\<lambda>item. (str_oid (fst item), snd item)) (take 24 result))"
proof -
  let ?asc = "default_filters\<lparr>sort_f := Some ''price_asc''\<rparr>"
  let ?desc = "default_filters\<lparr>sort_f := Some ''price_desc''\<rparr>"
  let ?rat = "default_filters\<lparr>sort_f := Some ''rating''\<rparr>"
  let ?new = "default_filters\<lparr>sort_f := Some ''newest''\<rparr>"
  have n: "?new\<lparr>sort_f := None\<rparr> = default_filters"
    by (simp add: default_filters_def)
  have a: "search_products no_engine (Some shop) ?asc =
        Inr (projr (search_products no_engine (Some shop) ?asc)) \<and>
      sort_f ?asc = Some ''price_asc''"
    by (simp add: shop_search_price_asc)
  have b: "search_products no_engine (Some shop) ?desc =
        Inr (projr (search_products no_engine (Some shop) ?desc)) \<and>
      sort_f ?desc = Some ''price_desc''"
    by (simp add: shop_search_price_desc)
  have c: "search_products no_engine (Some shop) ?rat =
        Inr (projr (search_products no_engine (Some shop) ?rat)) \<and>
      sort_f ?rat = Some ''rating''"
    by (simp add: shop_search_rating)
  have e: "search_products no_engine (Some shop) default_filters =
        Inr (projr (search_products no_engine (Some shop) default_filters)) \<and>
      (''000000000000000000000001'', ProductData cotton_brief)
        \<in> set (items (projr (search_products no_engine (Some shop) default_filters)))"
    by (simp add: shop_search_default)
  have 0: "map fst (items (projr (search_products no_engine (Some shop) ?asc))) =
     [''000000000000000000000001'', ''000000000000000000000000'']"
    by (simp add: shop_search_price_asc)
  have 1: "sorted (map (\<lambda>item. sort_value ''price'' (snd item))
     (items (projr (search_products no_engine (Some shop) ?asc))))"
    by (rule sort_modes [THEN conjunct1, THEN mp, OF a])
  have 2: "sorted_wrt (\<ge>) (map (\<lambda>item. sort_value ''price'' (snd item))
     (items (projr (search_products no_engine (Some shop) ?desc))))"
    by (rule sort_modes [THEN conjunct2, THEN conjunct1, THEN mp, OF b])
  have 3: "sorted_wrt (\<ge>) (map (\<lambda>item. sort_value ''rating'' (snd item))
     (items (projr (search_products no_engine (Some shop) ?rat))))"
    by (rule sort_modes [THEN conjunct2, THEN conjunct2, THEN conjunct1, THEN mp, OF c])
  have 4: "search_products no_engine (Some shop) ?new =
     search_products no_engine (Some shop) default_filters"
    using sort_modes [of no_engine "Some shop" ?new] n by simp
  have 5: "sort_value ''price'' (ProductData cotton_brief) = Some 10 \<and>
     sort_value ''rating'' (ProductData cotton_brief) = None"
    using sort_modes [THEN conjunct2, THEN conjunct2, THEN conjunct2, THEN conjunct2,
        THEN conjunct2, THEN conjunct1, THEN mp, OF e]
    by (simp add: cotton_brief_def)
  from sort_modes [THEN conjunct2, THEN conjunct2, THEN conjunct2, THEN conjunct2,
        THEN conjunct2, THEN conjunct2, THEN mp, OF a [THEN conjunct1]]
  obtain result where
    r1: "\<forall>doc. count_list result doc =
        count_list (filter (doc_matches no_engine (build_query ?asc))
          (collections shop ''product'')) doc"
    and r2: "sort_f ?asc = Some ''price_asc'' \<longrightarrow>
        sorted (map (\<lambda>doc. sort_value ''price'' (snd doc)) result)"
    and r3: "items (projr (search_products no_engine (Some shop) ?asc)) =
        map (\<lambda>item. (str_oid (fst item), snd item))
          (if FilterRequest.limit ?asc = 0
           then drop (nat (max 0 ((FilterRequest.page ?asc - 1) * FilterRequest.limit ?asc)))
                  result
           else take (nat \<bar>FilterRequest.limit ?asc\<bar>)
                  (drop (nat (max 0 ((FilterRequest.page ?asc - 1) * FilterRequest.limit ?asc)))
                     result))"
    by (elim exE conjE)
  have 6: "\<exists>result.
      (\<forall>doc. count_list result doc =
         count_list [(Oid ''000000000000000000000000'', ProductData lace_bra),
                     (Oid ''000000000000000000000001'', ProductData cotton_brief)] doc) \<and>
      sorted (map (\<lambda>doc. sort_value ''price'' (snd doc)) result) \<and>
      items (projr (search_products no_engine (Some shop) ?asc)) =
        map (\<lambda>item. (str_oid (fst item), snd item)) (take 24 result)"
  proof (intro exI [of _ result] conjI)
    from r1 [unfolded shop_matching_sort]
    show "\<forall>doc. count_list result doc =
         count_list [(Oid ''000000000000000000000000'', ProductData lace_bra),
                     (Oid ''000000000000000000000001'', ProductData cotton_brief)] doc" .
    from r2 show "sorted (map (\<lambda>doc. sort_value ''price'' (snd doc)) result)"
      by simp
    from r3 show "items (projr (search_products no_engine (Some shop) ?asc)) =
        map (\<lambda>item. (str_oid (fst item), snd item)) (take 24 result)"
      by (simp add: default_filters_def)
  qed
  from 0 1 2 3 4 5 6 show ?thesis by (intro conjI) simp_all
qed

section \<open>Facets\<close>

lemma map_of_bump:
  "map_of (bump k g) k' =
     (if k' = k then Some (case map_of g k of None \<Rightarrow> 1 | Some n \<Rightarrow> n + 1) else map_of g k')"
  by (induction g) auto

lemma keys_bump: "fst ` set (bump k g) = insert k (fst ` set g)"
  by (induction g; force)

lemma distinct_bump: "distinct (map fst g) \<Longrightarrow> distinct (map fst (bump k g))"
proof (induction g)
  case Nil
  then show ?case by simp
next
  case (Cons a g)
  obtain k' n where a: "a = (k', n)" by (cases a)
  with Cons show ?case
    by (simp add: keys_bump)
qed

lemma fold_bump:
  "distinct (map fst g) \<Longrightarrow>
     distinct (map fst (fold bump ks g)) \<and>
     map_of (fold bump ks g) k =
       (if count_list ks k = 0 then map_of g k
        else Some ((case map_of g k of None \<Rightarrow> 0 | Some n \<Rightarrow> n) + count_list ks k))"
proof (induction ks arbitrary: g)
  case Nil
  then show ?case by simp
next
  case (Cons a ks)
  from Cons.IH [OF distinct_bump [OF Cons.prems], of a]
  show ?case
    by (auto simp: map_of_bump split: option.splits)
qed

lemma distinct_group_count: "distinct (map fst (group_count ks))"
  using fold_bump [of "[]" ks] by (simp add: group_count_def)

lemma group_count_iff:
  "(k, n) \<in> set (group_count ks) \<longleftrightarrow> 0 < n \<and> n = count_list ks k"
proof -
  have "(k, n) \<in> set (group_count ks) \<longleftrightarrow> map_of (group_count ks) k = Some n"
    using distinct_group_count [of ks] by simp
  also have "\<dots> \<longleftrightarrow> 0 < n \<and> n = count_list ks k"
    using fold_bump [of "[]" ks k] by (auto simp: group_count_def)
  finally show ?thesis .
qed

lemma set_sort_count_desc [simp]: "set (sort_count_desc g) = set g"
  by (simp add: sort_count_desc_def)

lemma distinct_sort_count_desc:
  "distinct (map fst g) \<Longrightarrow> distinct (map fst (sort_count_desc g))"
  by (simp add: sort_count_desc_def sort_desc_key_def distinct_map)

lemma sorted_sort_count_desc: "sorted_wrt (\<ge>) (map snd (sort_count_desc g))"
  by (simp add: sort_count_desc_def sorted_sort_desc_key)

lemma facet_entries_Cons:
  "facet_entries ((k, n) # g) =
     (case k of None \<Rightarrow> facet_entries g
      | Some v \<Rightarrow> if v = [] then facet_entries g else (v, n) # facet_entries g)"
  by (simp add: facet_entries_def List.map_filter_simps split: option.splits)

lemma facet_entries_Nil [simp]: "facet_entries [] = []"
  by (simp add: facet_entries_def List.map_filter_simps)

lemma set_facet_entries:
  "(v, n) \<in> set (facet_entries g) \<longleftrightarrow> v \<noteq> [] \<and> (Some v, n) \<in> set g"
  by (induction g) (auto simp: facet_entries_Cons split: option.splits if_splits)

lemma keys_facet_entries:
  "v \<in> fst ` set (facet_entries g) \<Longrightarrow> Some v \<in> fst ` set g"
  by (force simp: set_facet_entries)

lemma distinct_facet_entries:
  "distinct (map fst g) \<Longrightarrow> distinct (map fst (facet_entries g))"
proof (induction g)
  case Nil
  then show ?case by simp
next
  case (Cons a g)
  obtain k n where a: "a = (k, n)" by (cases a)
  from Cons.prems a have k: "k \<notin> fst ` set g" and d: "distinct (map fst (facet_entries g))"
    using Cons.IH by simp_all
  show ?case
  proof (cases k)
    case None
    with a d show ?thesis by (simp add: facet_entries_Cons)
  next
    case (Some v)
    with k keys_facet_entries [of v g] have "v \<notin> fst ` set (facet_entries g)"
      by blast
    with a d Some show ?thesis by (simp add: facet_entries_Cons)
  qed
qed

lemma sorted_facet_entries:
  "sorted_wrt (\<ge>) (map snd g) \<Longrightarrow> sorted_wrt (\<ge>) (map snd (facet_entries g))"
proof (induction g)
  case Nil
  then show ?case by simp
next
  case (Cons a g)
  obtain k n where a: "a = (k, n)" by (cases a)
  with Cons show ?case
    by (force simp: facet_entries_Cons set_facet_entries split: option.splits)
qed

lemma count_list_map_Some: "count_list (map Some xs) (Some v) = count_list xs v"
  by (induction xs) auto

lemma unwind_keys:
  "map (\<lambda>(doc, v). Some (k v)) (unwind_variants docs) =
     map Some (concat (map (\<lambda>doc. map k (variants_of (snd doc))) docs))"
  by (induction docs) (simp_all add: unwind_variants_def comp_def)

lemma facet_of_counts:
  fixes k :: "ProductVariant \<Rightarrow> string"
  defines "fs \<equiv> \<lambda>docs. facet_entries (sort_count_desc (group_count
      (map (\<lambda>(doc, v). Some (k v)) (unwind_variants docs))))"
  shows "((v, n) \<in> set (fs docs) \<longleftrightarrow>
           v \<noteq> [] \<and> 0 < n \<and>
           n = count_list (concat (map (\<lambda>doc. map k (variants_of (snd doc))) docs)) v)"
    and "distinct (map fst (fs docs))"
    and "sorted_wrt (\<ge>) (map snd (fs docs))"
proof -
  show "(v, n) \<in> set (fs docs) \<longleftrightarrow>
           v \<noteq> [] \<and> 0 < n \<and>
           n = count_list (concat (map (\<lambda>doc. map k (variants_of (snd doc))) docs)) v"
    by (simp add: fs_def set_facet_entries group_count_iff unwind_keys count_list_map_Some)
  show "distinct (map fst (fs docs))"
    unfolding fs_def
    by (intro distinct_facet_entries distinct_sort_count_desc distinct_group_count)
  show "sorted_wrt (\<ge>) (map snd (fs docs))"
    unfolding fs_def by (intro sorted_facet_entries sorted_sort_count_desc)
qed


text \<open>
  C2. In the response of a search, the color facets list exactly the non-empty colors
  that occur among the variants of the products matching the query, each once, with the
  number of its occurrences among all those variants (a product with two variants of one
  color adds two), in order of descending count; the matching products are all of them,
  whatever the page and the limit. The size facets are the same for sizes.
\<close>

theorem facets_count_all_matches:
  assumes "search_products rx (Some d) f = Inr r"
  shows
    "(\<forall>v n. (v, n) \<in> set (facets.colors (facets r)) \<longleftrightarrow>
        v \<noteq> [] \<and> 0 < n \<and>
        n = count_list
              (concat (map (\<lambda>doc. map color (variants_of (snd doc)))
                 (filter (doc_matches rx (build_query f)) (collections d ''product'')))) v) \<and>
     distinct (map fst (facets.colors (facets r))) \<and>
     sorted_wrt (\<ge>) (map snd (facets.colors (facets r))) \<and>
     (\<forall>v n. (v, n) \<in> set (facets.sizes (facets r)) \<longleftrightarrow>
        v \<noteq> [] \<and> 0 < n \<and>
        n = count_list
              (concat (map (\<lambda>doc. map size_v (variants_of (snd doc)))
                 (filter (doc_matches rx (build_query f)) (collections d ''product'')))) v) \<and>
     distinct (map fst (facets.sizes (facets r))) \<and>
     sorted_wrt (\<ge>) (map snd (facets.sizes (facets r)))"
proof -
  from assms have
    c: "facets.colors (facets r) =
          facet_entries (color_counts rx (collections d ''product'') (build_query f))" and
    s: "facets.sizes (facets r) =
          facet_entries (size_counts rx (collections d ''product'') (build_query f))"
    by (auto elim: search_products_Inr)
  show ?thesis
    unfolding c s color_counts_def size_counts_def
    by (intro conjI allI facet_of_counts)
qed

lemma shop_matching:
  "filter (doc_matches no_engine (build_query (default_filters\<lparr>FilterRequest.limit := 1\<rparr>)))
     (collections shop ''product'') =
     [(Oid ''000000000000000000000000'', ProductData lace_bra),
      (Oid ''000000000000000000000001'', ProductData cotton_brief)]"
  by (simp add: model_defs sample_defs)

lemma shop_search_limit_1:
  "search_products no_engine (Some shop) (default_filters\<lparr>FilterRequest.limit := 1\<rparr>) =
     Inr \<lparr>search_response.total = 2, page = 1, limit = 1,
          items = [(''000000000000000000000000'', ProductData lace_bra)],
          facets = \<lparr>facets.colors = [(''red'', 2), (''black'', 2)],
                    sizes = [(''34B'', 2), (''36B'', 1), (''M'', 1), (''L'', 1)]\<rparr>\<rparr>"
  by (simp add: model_defs sample_defs)

theorem facets_count_all_matches_witness:
  "facets.colors (facets (projr (search_products no_engine (Some shop)
      (default_filters\<lparr>FilterRequest.limit := 1\<rparr>)))) = [(''red'', 2), (''black'', 2)] \<and>
   count_list (concat (map (\<lambda>doc. map color (variants_of (snd doc)))
      [(Oid ''000000000000000000000000'', ProductData lace_bra),
       (Oid ''000000000000000000000001'', ProductData cotton_brief)])) ''black'' = 2 \<and>
   (''black'', 2) \<in> set (facets.colors (facets (projr (search_products no_engine (Some shop)
      (default_filters\<lparr>FilterRequest.limit := 1\<rparr>))))) \<and>
   distinct (map fst (facets.sizes (facets (projr (search_products no_engine (Some shop)
      (default_filters\<lparr>FilterRequest.limit := 1\<rparr>))))))"
proof -
  let ?f = "default_filters\<lparr>FilterRequest.limit := 1\<rparr>"
  have a: "search_products no_engine (Some shop) ?f =
      Inr (projr (search_products no_engine (Some shop) ?f))"
    by (simp add: shop_search_limit_1)
  have c: "count_list (concat (map (\<lambda>doc. map color (variants_of (snd doc)))
      [(Oid ''000000000000000000000000'', ProductData lace_bra),
       (Oid ''000000000000000000000001'', ProductData cotton_brief)])) ''black'' = 2"
    by (simp add: sample_defs)
  note t = facets_count_all_matches [OF a]
  from t have "(''black'', 2) \<in> set (facets.colors (facets (projr
      (search_products no_engine (Some shop) ?f)))) \<longleftrightarrow>
      ''black'' \<noteq> [] \<and> (0::nat) < 2 \<and>
      2 = count_list (concat (map (\<lambda>doc. map color (variants_of (snd doc)))
        (filter (doc_matches no_engine (build_query ?f)) (collections shop ''product''))))
        ''black''"
    by (elim conjE allE)
  then have 1: "(''black'', 2) \<in> set (facets.colors (facets (projr
      (search_products no_engine (Some shop) ?f))))"
    by (simp only: shop_matching c) simp
  from t have 2: "distinct (map fst (facets.sizes (facets (projr
      (search_products no_engine (Some shop) ?f)))))"
    by (elim conjE)
  have 3: "facets.colors (facets (projr (search_products no_engine (Some shop) ?f))) =
      [(''red'', 2), (''black'', 2)]"
    by (simp add: shop_search_limit_1)
  from 1 2 3 c show ?thesis by (intro conjI)
qed

section \<open>The search text\<close>




lemma match_here_Nil [simp]: "match_here as [] \<longleftrightarrow> as = []"
  by (cases as) simp_all










end
